theory Spec2Isabelle
  imports Main "HOL-Library.Word"
begin

unbundle bit_operations_syntax

section \<open>Common data\<close>

text \<open>
  The repository holds two variants of the same virtual machine:
  \<^verbatim>\<open>EMAUI0.2.py\<close> (numpy arrays, a two-region memory map, decoded instructions as closures)
  and \<^verbatim>\<open>FlamesVM64.py\<close> (a flat \<^verbatim>\<open>bytearray\<close>, Python lists, one
  \<^verbatim>\<open>execute_instruction\<close>). Both are embedded. Definitions of the first variant keep
  the names of the source; those of the second carry the suffix \<open>_vm64\<close>.

  Python integers are \<open>int\<close>. A method that mutates its object and may raise returns a pair:
  the outcome (\<open>Inl\<close> the exception, \<open>Inr\<close> the returned value) and the object as the
  method leaves it, so that a mutation made before a \<^verbatim>\<open>raise\<close> stays visible.
\<close>

type_synonym u8 = "8 word"
type_synonym u16 = "16 word"
type_synonym u32 = "32 word"

datatype error =
    MemoryError_invalid_access int
  | MemoryError_pif_rom
  | MemoryError_invalid_read int
  | MemoryError_invalid_write int
  | struct_error
  | ValueError_invalid_literal "u8 list"
  | ValueError_unknown_opcode int
  | TypeError_not_callable
  | IndexError
  | OverflowError

type_synonym ('a, 's) outcome = "(error + 'a) \<times> 's"

text \<open>
  EMAUI0.2 computes on numpy scalars and arrays, and the repository fixes no version of
  numpy. Two points of the code depend on it, both on what happens to a Python integer
  that does not fit the numpy type it meets: before numpy 2.0 (\<open>Numpy1\<close>) the operation
  is carried out in a wider type or the value is cut to the low bits, from numpy 2.0 on
  (\<open>Numpy2\<close>) it raises \<^verbatim>\<open>OverflowError\<close>. The version is a parameter of every
  definition that depends on it.
\<close>

datatype numpy = Numpy1 | Numpy2

subsection \<open>The \<^verbatim>\<open>struct\<close> module, format \<^verbatim>\<open>'>I'\<close>\<close>

text \<open>
  \<^verbatim>\<open>struct.pack('>I', v)\<close> gives the four bytes of \<open>v\<close>, most significant first, and
  raises \<^verbatim>\<open>struct.error\<close> unless \<open>0 \<le> v < 2^32\<close>. \<^verbatim>\<open>struct.unpack('>I', b)\<close>
  raises \<^verbatim>\<open>struct.error\<close> unless the buffer holds exactly four bytes.
\<close>

definition pack_I :: "int \<Rightarrow> error + u8 list" where
  "pack_I v =
     (if 0 \<le> v \<and> v < 2 ^ 32
      then Inr [word_of_int (drop_bit 24 v), word_of_int (drop_bit 16 v),
                word_of_int (drop_bit 8 v), word_of_int v]
      else Inl struct_error)"

definition unpack_I :: "u8 list \<Rightarrow> error + int" where
  "unpack_I bs =
     (case bs of
        [b0, b1, b2, b3] \<Rightarrow>
          Inr (push_bit 24 (uint b0) + push_bit 16 (uint b1) + push_bit 8 (uint b2) + uint b3)
      | _ \<Rightarrow> Inl struct_error)"

section \<open>EMAUI0.2: Memory\<close>

definition RDRAM_SIZE :: int where "RDRAM_SIZE = 8 * 1024 * 1024"
definition RDRAM_START :: int where "RDRAM_START = 0x00000000"
definition RDRAM_END :: int where "RDRAM_END = RDRAM_START + RDRAM_SIZE - 1"
definition PIF_ROM_START :: int where "PIF_ROM_START = 0x1FC00000"
definition PIF_ROM_SIZE :: int where "PIF_ROM_SIZE = 2048"
definition PIF_ROM_END :: int where "PIF_ROM_END = PIF_ROM_START + PIF_ROM_SIZE - 1"

text \<open>
  \<^verbatim>\<open>rdram\<close> and \<^verbatim>\<open>pif_rom\<close> are numpy arrays of \<^verbatim>\<open>uint8\<close> whose lengths
  (\<open>RDRAM_SIZE\<close>, \<open>PIF_ROM_SIZE\<close>) never change: each is a store from index to byte, and
  every access below checks the index against the length as numpy does.
\<close>

record memory =
  rdram :: "nat \<Rightarrow> u8"
  pif_rom :: "nat \<Rightarrow> u8"
  reads :: int
  writes :: int

definition Memory_init :: memory where
  "Memory_init = \<lparr>rdram = (\<lambda>_. 0), pif_rom = (\<lambda>_. 0), reads = 0, writes = 0\<rparr>"

datatype region = RDRAM | PIF_ROM

definition map_address :: "int \<Rightarrow> error + (region \<times> nat)" where
  "map_address address =
     (if RDRAM_START \<le> address \<and> address \<le> RDRAM_END
      then Inr (RDRAM, nat (address - RDRAM_START))
      else if PIF_ROM_START \<le> address \<and> address \<le> PIF_ROM_END
      then Inr (PIF_ROM, nat (address - PIF_ROM_START))
      else Inl (MemoryError_invalid_access address))"

definition read_byte :: "memory \<Rightarrow> int \<Rightarrow> (u8, memory) outcome" where
  "read_byte m address =
     (case map_address address of
        Inl e \<Rightarrow> (Inl e, m)
      | Inr (region, offset) \<Rightarrow>
          (let m1 = m\<lparr>reads := reads m + 1\<rparr> in
           case region of
             RDRAM \<Rightarrow> (Inr (rdram m1 offset), m1)
           | PIF_ROM \<Rightarrow> (Inr (pif_rom m1 offset), m1)))"

definition write_byte :: "memory \<Rightarrow> int \<Rightarrow> int \<Rightarrow> (unit, memory) outcome" where
  "write_byte m address v =
     (case map_address address of
        Inl e \<Rightarrow> (Inl e, m)
      | Inr (region, offset) \<Rightarrow>
          (let m1 = m\<lparr>writes := writes m + 1\<rparr> in
           case region of
             RDRAM \<Rightarrow> (Inr (), m1\<lparr>rdram := (rdram m1)(offset := word_of_int (v AND 0xFF))\<rparr>)
           | PIF_ROM \<Rightarrow> (Inl MemoryError_pif_rom, m1)))"

subsection \<open>Word access\<close>

text \<open>
  A numpy slice \<^verbatim>\<open>a[start:stop]\<close> with \<open>0 \<le> start\<close> is cut off at the length of the
  array; it never raises and never wraps.
\<close>

definition numpy_slice :: "int \<Rightarrow> (nat \<Rightarrow> 'a) \<Rightarrow> nat \<Rightarrow> nat \<Rightarrow> 'a list" where
  "numpy_slice len a start stop = map a [start ..< min stop (nat len)]"

definition numpy_fill :: "int \<Rightarrow> (nat \<Rightarrow> 'a) \<Rightarrow> nat \<Rightarrow> nat \<Rightarrow> 'a \<Rightarrow> (nat \<Rightarrow> 'a)" where
  "numpy_fill len a start stop c = (\<lambda>i. if start \<le> i \<and> i < min stop (nat len) then c else a i)"

text \<open>
  \<^verbatim>\<open>write_word\<close> assigns the \<^verbatim>\<open>bytes\<close> object returned by \<^verbatim>\<open>struct.pack\<close> to a
  slice of a \<^verbatim>\<open>uint8\<close> array. numpy does not read a \<^verbatim>\<open>bytes\<close> object as a sequence
  of four integers: it is one scalar, which is converted to \<^verbatim>\<open>uint8\<close> through Python's
  \<^verbatim>\<open>int()\<close> (a decimal literal: optional white space around, an optional sign, digits
  with single underscores between them); the one resulting byte is broadcast over the
  slice. When the bytes are no such literal the assignment raises
  \<^verbatim>\<open>ValueError: invalid literal for int() with base 10\<close>. A literal outside
  \<open>0 .. 255\<close> is cut to its low 8 bits before numpy 2.0 and raises
  \<^verbatim>\<open>OverflowError\<close> from 2.0 on.
\<close>

definition py_isspace :: "u8 \<Rightarrow> bool" where
  "py_isspace c = (c = 0x20 \<or> (0x09 \<le> c \<and> c \<le> 0x0D))"

definition py_isdigit :: "u8 \<Rightarrow> bool" where
  "py_isdigit c = (0x30 \<le> c \<and> c \<le> 0x39)"

fun py_digits :: "int \<Rightarrow> u8 list \<Rightarrow> int option" where
  "py_digits acc [] = Some acc"
| "py_digits acc [c] = (if py_isdigit c then Some (10 * acc + (uint c - 0x30)) else None)"
| "py_digits acc (c # d # ds) =
     (if py_isdigit c then py_digits (10 * acc + (uint c - 0x30)) (d # ds)
      else if c = 0x5F \<and> py_isdigit d then py_digits (10 * acc + (uint d - 0x30)) ds
      else None)"

definition py_unsigned :: "u8 list \<Rightarrow> int option" where
  "py_unsigned cs =
     (case cs of
        [] \<Rightarrow> None
      | c # r \<Rightarrow> if py_isdigit c then py_digits (uint c - 0x30) r else None)"

definition py_int_of_bytes :: "u8 list \<Rightarrow> int option" where
  "py_int_of_bytes bs =
     (let s = dropWhile py_isspace bs;
          t = rev (dropWhile py_isspace (rev s))
      in case t of
           [] \<Rightarrow> None
         | c # r \<Rightarrow>
             if c = 0x2B then py_unsigned r
             else if c = 0x2D then map_option uminus (py_unsigned r)
             else py_unsigned t)"

definition numpy_uint8_of_bytes :: "numpy \<Rightarrow> u8 list \<Rightarrow> error + u8" where
  "numpy_uint8_of_bytes np bs =
     (case py_int_of_bytes bs of
        None \<Rightarrow> Inl (ValueError_invalid_literal bs)
      | Some n \<Rightarrow>
          (case np of
             Numpy1 \<Rightarrow> Inr (word_of_int n)
           | Numpy2 \<Rightarrow> if 0 \<le> n \<and> n \<le> 255 then Inr (word_of_int n) else Inl OverflowError))"

definition read_word :: "memory \<Rightarrow> int \<Rightarrow> (int, memory) outcome" where
  "read_word m address =
     (case map_address address of
        Inl e \<Rightarrow> (Inl e, m)
      | Inr (region, offset) \<Rightarrow>
          (let m1 = m\<lparr>reads := reads m + 4\<rparr> in
           case region of
             RDRAM \<Rightarrow> (unpack_I (numpy_slice RDRAM_SIZE (rdram m1) offset (offset + 4)), m1)
           | PIF_ROM \<Rightarrow> (unpack_I (numpy_slice PIF_ROM_SIZE (pif_rom m1) offset (offset + 4)), m1)))"

definition write_word :: "numpy \<Rightarrow> memory \<Rightarrow> int \<Rightarrow> int \<Rightarrow> (unit, memory) outcome" where
  "write_word np m address v =
     (case map_address address of
        Inl e \<Rightarrow> (Inl e, m)
      | Inr (region, offset) \<Rightarrow>
          (let m1 = m\<lparr>writes := writes m + 4\<rparr> in
           case region of
             RDRAM \<Rightarrow>
               (case pack_I v of
                  Inl e \<Rightarrow> (Inl e, m1)
                | Inr bs \<Rightarrow>
                    (case numpy_uint8_of_bytes np bs of
                       Inl e \<Rightarrow> (Inl e, m1)
                     | Inr c \<Rightarrow>
                         (Inr (), m1\<lparr>rdram :=
                            numpy_fill RDRAM_SIZE (rdram m1) offset (offset + 4) c\<rparr>)))
           | PIF_ROM \<Rightarrow> (Inl MemoryError_pif_rom, m1)))"

section \<open>EMAUI0.2: Graphics\<close>

text \<open>
  The framebuffer is a numpy array of \<^verbatim>\<open>uint16\<close>, \<open>height\<close> rows of \<open>width\<close>
  cells, addressed \<^verbatim>\<open>framebuffer[y, x]\<close>. The canvas and the image of the window are
  not part of the model.
\<close>

definition width :: int where "width = 640"
definition height :: int where "height = 480"

record graphics =
  framebuffer :: "nat \<Rightarrow> nat \<Rightarrow> u16"

definition Graphics_init :: graphics where
  "Graphics_init = \<lparr>framebuffer = (\<lambda>_ _. 0)\<rparr>"

text \<open>
  The kernel calls \<^verbatim>\<open>draw_rectangle\<close> with five register values, numpy scalars of type
  \<^verbatim>\<open>uint32\<close>: \<^verbatim>\<open>x + width\<close> and \<^verbatim>\<open>y + height\<close> are \<^verbatim>\<open>uint32\<close> sums, which wrap
  at \<open>2^32\<close>, and the colour is cast to the \<^verbatim>\<open>uint16\<close> of the framebuffer on assignment.
\<close>

definition draw_rectangle :: "graphics \<Rightarrow> u32 \<Rightarrow> u32 \<Rightarrow> u32 \<Rightarrow> u32 \<Rightarrow> u32 \<Rightarrow> graphics" where
  "draw_rectangle g x y w h color =
     (let x1 = max 0 (uint x);
          y1 = max 0 (uint y);
          x2 = min width (uint (x + w));
          y2 = min height (uint (y + h))
      in if x1 < x2 \<and> y1 < y2
         then g\<lparr>framebuffer :=
                  (\<lambda>r c. if y1 \<le> int r \<and> int r < y2 \<and> x1 \<le> int c \<and> int c < x2
                         then ucast color else framebuffer g r c)\<rparr>
         else g)"

text \<open>\<^verbatim>\<open>render\<close> builds an image from the framebuffer and hands it to the canvas; the
  framebuffer itself is only read.\<close>

definition render :: "graphics \<Rightarrow> graphics" where
  "render g = g"

section \<open>EMAUI0.2: Kernel\<close>

text \<open>
  \<^verbatim>\<open>registers\<close> is a numpy array of 32 \<^verbatim>\<open>uint32\<close>; every index used below is a 5-bit
  field of the instruction or a constant from 1 to 5. \<open>shown\<close> lists the messages handed to
  \<^verbatim>\<open>messagebox.showerror\<close>, the only trace an error leaves besides \<open>running\<close>.
\<close>

record kernel =
  memory :: memory
  graphics :: graphics
  pc :: int
  registers :: "nat \<Rightarrow> u32"
  running :: bool
  cycles :: int
  shown :: "error list"

definition Kernel_init :: "memory \<Rightarrow> graphics \<Rightarrow> kernel" where
  "Kernel_init m g =
     \<lparr>memory = m, graphics = g, pc = 0, registers = (\<lambda>_. 0), running = True, cycles = 0,
      shown = []\<rparr>"

fun load_bytes :: "memory \<Rightarrow> int \<Rightarrow> int list \<Rightarrow> (unit, memory) outcome" where
  "load_bytes m i [] = (Inr (), m)"
| "load_bytes m i (byte # program) =
     (case write_byte m i byte of
        (Inl e, m') \<Rightarrow> (Inl e, m')
      | (Inr _, m') \<Rightarrow> load_bytes m' (i + 1) program)"

definition load_program :: "kernel \<Rightarrow> int list \<Rightarrow> (unit, kernel) outcome" where
  "load_program k program =
     (case load_bytes (memory k) 0 program of
        (Inl e, m') \<Rightarrow> (Inl e, k\<lparr>memory := m'\<rparr>)
      | (Inr _, m') \<Rightarrow> (Inr (), k\<lparr>memory := m', pc := 0\<rparr>))"

definition fetch_instruction :: "kernel \<Rightarrow> (int, kernel) outcome" where
  "fetch_instruction k =
     (case read_word (memory k) (pc k) of
        (Inl e, m') \<Rightarrow> (Inl e, k\<lparr>memory := m'\<rparr>)
      | (Inr instruction, m') \<Rightarrow>
          (Inr instruction, k\<lparr>memory := m', pc := pc k + 4, cycles := cycles k + 1\<rparr>))"

text \<open>
  \<^verbatim>\<open>decode_instruction\<close> returns a closure \<^verbatim>\<open>func\<close> over the fields it has extracted.
  Each closure of the source is a constructor here, with the captured variables as its
  arguments, and \<open>call\<close> is the body of the closure. Where the method reaches its end
  without a \<^verbatim>\<open>return\<close> the result is Python's \<^verbatim>\<open>None\<close>, here \<open>None\<close>.
\<close>

datatype func =
    ADD nat nat nat
  | SUB nat nat nat
  | ADDI nat nat int
  | LUI nat int
  | DRAW_RECTANGLE
  | RENDER
  | HALT
  | UNKNOWN int

definition decode_instruction :: "int \<Rightarrow> func option" where
  "decode_instruction instruction =
     (let opcode = drop_bit 26 instruction in
      if opcode = 0 then
        (let rs = nat (drop_bit 21 instruction AND 0x1F);
             rt = nat (drop_bit 16 instruction AND 0x1F);
             rd = nat (drop_bit 11 instruction AND 0x1F);
             funct = instruction AND 0x3F
         in if funct = 0x20 then Some (ADD rd rs rt)
            else if funct = 0x22 then Some (SUB rd rs rt)
            else None)
      else if opcode = 0x08 then
        (let rs = nat (drop_bit 21 instruction AND 0x1F);
             rt = nat (drop_bit 16 instruction AND 0x1F);
             imm = instruction AND 0xFFFF;
             imm = (if imm AND 0x8000 \<noteq> 0 then imm - 0x10000 else imm)
         in Some (ADDI rt rs imm))
      else if opcode = 0x0F then
        (let rt = nat (drop_bit 16 instruction AND 0x1F);
             imm = instruction AND 0xFFFF
         in Some (LUI rt imm))
      else if opcode = 0x2D then Some DRAW_RECTANGLE
      else if opcode = 0x2E then Some RENDER
      else if opcode = 0x3F then Some HALT
      else Some (UNKNOWN opcode))"

text \<open>
  In \<^verbatim>\<open>ADD\<close> and \<^verbatim>\<open>SUB\<close> both operands are \<^verbatim>\<open>uint32\<close> scalars: the sum and the
  difference are \<^verbatim>\<open>uint32\<close> and wrap, under either numpy. In \<^verbatim>\<open>ADDI\<close> the second
  operand is a Python integer, possibly negative. Before numpy 2.0 the sum of a
  \<^verbatim>\<open>uint32\<close> scalar and a Python integer is computed in \<^verbatim>\<open>int64\<close>, exactly, then
  masked and stored into the \<^verbatim>\<open>uint32\<close> array. From numpy 2.0 on the Python integer is
  converted to \<^verbatim>\<open>uint32\<close> first: a negative one raises \<^verbatim>\<open>OverflowError\<close> before
  anything is stored, and otherwise the sum is a \<^verbatim>\<open>uint32\<close> and wraps.
\<close>

fun call :: "numpy \<Rightarrow> func \<Rightarrow> kernel \<Rightarrow> (unit, kernel) outcome" where
  "call np (ADD rd rs rt) k =
     (Inr (), k\<lparr>registers := (registers k)(rd := (registers k rs + registers k rt) AND 0xFFFFFFFF)\<rparr>)"
| "call np (SUB rd rs rt) k =
     (Inr (), k\<lparr>registers := (registers k)(rd := (registers k rs - registers k rt) AND 0xFFFFFFFF)\<rparr>)"
| "call np (ADDI rt rs imm) k =
     (case np of
        Numpy1 \<Rightarrow>
          (Inr (), k\<lparr>registers :=
             (registers k)(rt := word_of_int ((uint (registers k rs) + imm) AND 0xFFFFFFFF))\<rparr>)
      | Numpy2 \<Rightarrow>
          if imm < 0 then (Inl OverflowError, k)
          else (Inr (), k\<lparr>registers :=
                  (registers k)(rt := (registers k rs + word_of_int imm) AND 0xFFFFFFFF)\<rparr>))"
| "call np (LUI rt imm) k =
     (Inr (), k\<lparr>registers := (registers k)(rt := word_of_int (push_bit 16 imm))\<rparr>)"
| "call np DRAW_RECTANGLE k =
     (let x = registers k 1;
          y = registers k 2;
          w = registers k 3;
          h = registers k 4;
          color = registers k 5
      in (Inr (), k\<lparr>graphics := draw_rectangle (graphics k) x y w h color\<rparr>))"
| "call np RENDER k = (Inr (), k\<lparr>graphics := render (graphics k)\<rparr>)"
| "call np HALT k = (Inr (), k\<lparr>running := False\<rparr>)"
| "call np (UNKNOWN opcode) k = (Inl (ValueError_unknown_opcode opcode), k)"

text \<open>One turn of the loop of \<^verbatim>\<open>run\<close>: fetch, decode, call the result.\<close>

definition cycle :: "numpy \<Rightarrow> kernel \<Rightarrow> (unit, kernel) outcome" where
  "cycle np k =
     (case fetch_instruction k of
        (Inl e, k1) \<Rightarrow> (Inl e, k1)
      | (Inr instruction, k1) \<Rightarrow>
          (case decode_instruction instruction of
             None \<Rightarrow> (Inl TypeError_not_callable, k1)
           | Some f \<Rightarrow> call np f k1))"

text \<open>
  The loop of \<^verbatim>\<open>run\<close>. It ends: a turn that raises nothing has fetched a word at
  \<open>pc\<close>, which lies in a mapped region, and has advanced \<open>pc\<close> by 4; no closure writes
  \<open>pc\<close>.
\<close>

function run_loop :: "numpy \<Rightarrow> kernel \<Rightarrow> (unit, kernel) outcome" where
  "run_loop np k =
     (if running k
      then (case cycle np k of
              (Inl e, k') \<Rightarrow> (Inl e, k')
            | (Inr _, k') \<Rightarrow> run_loop np k')
      else (Inr (), k))"
  by pat_completeness auto
termination
proof (relation "measure (\<lambda>(np, k). nat (PIF_ROM_END + 1 - pc k))")
  show "wf (measure (\<lambda>(np, k). nat (PIF_ROM_END + 1 - pc k)))" by simp
next
  fix np k x k' u
  assume "running k" and "(x, k') = cycle np k" and "x = Inr u"
  then have c: "cycle np k = (Inr u, k')" by simp
  then obtain w k1 where f: "fetch_instruction k = (Inr w, k1)"
    by (auto simp: cycle_def split: prod.splits sum.splits)
  then obtain r where ma: "map_address (pc k) = Inr r"
    by (auto simp: fetch_instruction_def read_word_def split: prod.splits sum.splits)
  have le: "pc k \<le> PIF_ROM_END"
    using ma by (auto simp: map_address_def RDRAM_END_def RDRAM_START_def RDRAM_SIZE_def
      PIF_ROM_START_def PIF_ROM_END_def PIF_ROM_SIZE_def split: if_splits)
  have k1: "pc k1 = pc k + 4"
    using f by (auto simp: fetch_instruction_def split: prod.splits sum.splits)
  obtain f' where "decode_instruction w = Some f'" and c': "call np f' k1 = (Inr u, k')"
    using c f by (auto simp: cycle_def split: option.splits)
  have "pc k' = pc k1" using c' by (cases f') (auto simp: Let_def split: numpy.splits if_splits)
  with le k1 show "((np, k'), (np, k)) \<in> measure (\<lambda>(np, k). nat (PIF_ROM_END + 1 - pc k))"
    by simp
qed

declare run_loop.simps [simp del]

text \<open>\<^verbatim>\<open>run\<close>: the loop inside \<^verbatim>\<open>try\<close>; the handler of \<^verbatim>\<open>Exception\<close> shows the
  message and clears \<open>running\<close>.\<close>

definition run :: "numpy \<Rightarrow> kernel \<Rightarrow> kernel" where
  "run np k =
     (case run_loop np k of
        (Inl e, k') \<Rightarrow> k'\<lparr>running := False, shown := shown k' @ [e]\<rparr>
      | (Inr _, k') \<Rightarrow> k')"

section \<open>FlamesVM64: Memory\<close>

text \<open>
  \<^verbatim>\<open>self.memory\<close> is a \<^verbatim>\<open>bytearray\<close>, here a list of bytes; \<^verbatim>\<open>self.size\<close> is the
  length it was created with. A slice \<^verbatim>\<open>xs[start:stop]\<close> of a Python sequence counts a
  negative bound from the end and clips both bounds to the length; assigning to a slice
  replaces that span by the new bytes, whatever their number.
\<close>

record memory_vm64 =
  size_vm64 :: int
  bytearray_vm64 :: "u8 list"

definition Memory_init_vm64 :: "nat \<Rightarrow> memory_vm64" where
  "Memory_init_vm64 n = \<lparr>size_vm64 = int n, bytearray_vm64 = replicate n 0\<rparr>"

definition py_slice_bounds :: "int \<Rightarrow> int \<Rightarrow> int \<Rightarrow> nat \<times> nat" where
  "py_slice_bounds n start stop =
     (let lo = (if start < 0 then max 0 (start + n) else min start n);
          hi = (if stop < 0 then max 0 (stop + n) else min stop n)
      in (nat lo, nat (max lo hi)))"

definition py_getslice :: "'a list \<Rightarrow> int \<Rightarrow> int \<Rightarrow> 'a list" where
  "py_getslice xs start stop =
     (case py_slice_bounds (int (length xs)) start stop of
        (lo, hi) \<Rightarrow> take (hi - lo) (drop lo xs))"

definition py_setslice :: "'a list \<Rightarrow> int \<Rightarrow> int \<Rightarrow> 'a list \<Rightarrow> 'a list" where
  "py_setslice xs start stop ys =
     (case py_slice_bounds (int (length xs)) start stop of
        (lo, hi) \<Rightarrow> take lo xs @ ys @ drop hi xs)"

definition read_byte_vm64 :: "memory_vm64 \<Rightarrow> int \<Rightarrow> error + u8" where
  "read_byte_vm64 m address =
     (if 0 \<le> address \<and> address < size_vm64 m
      then (if nat address < length (bytearray_vm64 m)
            then Inr (bytearray_vm64 m ! nat address) else Inl IndexError)
      else Inl (MemoryError_invalid_read address))"

definition write_byte_vm64 :: "memory_vm64 \<Rightarrow> int \<Rightarrow> int \<Rightarrow> error + memory_vm64" where
  "write_byte_vm64 m address v =
     (if 0 \<le> address \<and> address < size_vm64 m
      then (if nat address < length (bytearray_vm64 m)
            then Inr (m\<lparr>bytearray_vm64 :=
                          (bytearray_vm64 m)[nat address := word_of_int (v AND 0xFF)]\<rparr>)
            else Inl IndexError)
      else Inl (MemoryError_invalid_write address))"

definition read_word_vm64 :: "memory_vm64 \<Rightarrow> int \<Rightarrow> error + int" where
  "read_word_vm64 m address =
     (if 0 \<le> address + 3 \<and> address + 3 < size_vm64 m
      then unpack_I (py_getslice (bytearray_vm64 m) address (address + 4))
      else Inl (MemoryError_invalid_read address))"

definition write_word_vm64 :: "memory_vm64 \<Rightarrow> int \<Rightarrow> int \<Rightarrow> error + memory_vm64" where
  "write_word_vm64 m address v =
     (if 0 \<le> address + 3 \<and> address + 3 < size_vm64 m
      then (case pack_I v of
              Inl e \<Rightarrow> Inl e
            | Inr bs \<Rightarrow>
                Inr (m\<lparr>bytearray_vm64 :=
                         py_setslice (bytearray_vm64 m) address (address + 4) bs\<rparr>))
      else Inl (MemoryError_invalid_write address))"

section \<open>FlamesVM64: Graphics and Kernel\<close>

text \<open>
  The framebuffer is a Python list of \<open>640 * 480\<close> integers and \<^verbatim>\<open>registers\<close> a list
  of 32 integers, neither of them bounded; \<^verbatim>\<open>draw_pixel\<close> checks its index itself and
  register indices are 5-bit fields or constants. Opcode 4 renders the framebuffer to the
  canvas and sleeps; it changes nothing the kernel reads.
\<close>

record graphics_vm64 =
  framebuffer_vm64 :: "nat \<Rightarrow> int"

definition draw_pixel_vm64 :: "graphics_vm64 \<Rightarrow> int \<Rightarrow> int \<Rightarrow> int \<Rightarrow> graphics_vm64" where
  "draw_pixel_vm64 g x y color =
     (if 0 \<le> x \<and> x < width \<and> 0 \<le> y \<and> y < height
      then (let index = y * width + x
            in g\<lparr>framebuffer_vm64 := (framebuffer_vm64 g)(nat index := color)\<rparr>)
      else g)"

record kernel_vm64 =
  memory_vm64 :: memory_vm64
  graphics_vm64 :: graphics_vm64
  pc_vm64 :: int
  registers_vm64 :: "nat \<Rightarrow> int"
  running_vm64 :: bool

definition Kernel_init_vm64 :: "memory_vm64 \<Rightarrow> graphics_vm64 \<Rightarrow> kernel_vm64" where
  "Kernel_init_vm64 m g =
     \<lparr>memory_vm64 = m, graphics_vm64 = g, pc_vm64 = 0, registers_vm64 = (\<lambda>_. 0),
      running_vm64 = True\<rparr>"

fun load_bytes_vm64 :: "memory_vm64 \<Rightarrow> int \<Rightarrow> int list \<Rightarrow> (unit, memory_vm64) outcome" where
  "load_bytes_vm64 m i [] = (Inr (), m)"
| "load_bytes_vm64 m i (byte # program) =
     (case write_byte_vm64 m i byte of
        Inl e \<Rightarrow> (Inl e, m)
      | Inr m' \<Rightarrow> load_bytes_vm64 m' (i + 1) program)"

definition load_program_vm64 :: "kernel_vm64 \<Rightarrow> int list \<Rightarrow> (unit, kernel_vm64) outcome" where
  "load_program_vm64 k program =
     (case load_bytes_vm64 (memory_vm64 k) 0 program of
        (Inl e, m') \<Rightarrow> (Inl e, k\<lparr>memory_vm64 := m'\<rparr>)
      | (Inr _, m') \<Rightarrow> (Inr (), k\<lparr>memory_vm64 := m', pc_vm64 := 0\<rparr>))"

definition fetch_instruction_vm64 :: "kernel_vm64 \<Rightarrow> (int, kernel_vm64) outcome" where
  "fetch_instruction_vm64 k =
     (case read_word_vm64 (memory_vm64 k) (pc_vm64 k) of
        Inl e \<Rightarrow> (Inl e, k)
      | Inr instruction \<Rightarrow> (Inr instruction, k\<lparr>pc_vm64 := pc_vm64 k + 4\<rparr>))"

definition execute_instruction_vm64 :: "kernel_vm64 \<Rightarrow> int \<Rightarrow> (unit, kernel_vm64) outcome" where
  "execute_instruction_vm64 k instruction =
     (let opcode = drop_bit 26 instruction in
      if opcode = 0 then
        (let rs = nat (drop_bit 21 instruction AND 0x1F);
             rt = nat (drop_bit 16 instruction AND 0x1F);
             rd = nat (drop_bit 11 instruction AND 0x1F)
         in (Inr (), k\<lparr>registers_vm64 :=
                         (registers_vm64 k)(rd := registers_vm64 k rs + registers_vm64 k rt)\<rparr>))
      else if opcode = 1 then
        (let rs = nat (drop_bit 21 instruction AND 0x1F);
             imm = instruction AND 0xFFFF
         in (Inr (), k\<lparr>registers_vm64 := (registers_vm64 k)(rs := registers_vm64 k rs + imm)\<rparr>))
      else if opcode = 2 then
        (let target = instruction AND 0x3FFFFFF
         in (Inr (), k\<lparr>pc_vm64 := (pc_vm64 k AND 0xF0000000) OR push_bit 2 target\<rparr>))
      else if opcode = 3 then
        (let x = registers_vm64 k 1;
             y = registers_vm64 k 2;
             color = registers_vm64 k 3
         in (Inr (), k\<lparr>graphics_vm64 := draw_pixel_vm64 (graphics_vm64 k) x y color\<rparr>))
      else if opcode = 4 then (Inr (), k)
      else if opcode = 63 then (Inr (), k\<lparr>running_vm64 := False\<rparr>)
      else (Inl (ValueError_unknown_opcode opcode), k))"

definition cycle_vm64 :: "kernel_vm64 \<Rightarrow> (unit, kernel_vm64) outcome" where
  "cycle_vm64 k =
     (case fetch_instruction_vm64 k of
        (Inl e, k1) \<Rightarrow> (Inl e, k1)
      | (Inr instruction, k1) \<Rightarrow> execute_instruction_vm64 k1 instruction)"

text \<open>
  \<^verbatim>\<open>run\<close> of this variant has no handler, and its loop need not end (a jump to itself):
  it runs on fuel, \<open>None\<close> when the fuel is spent before the loop is left, and an exception
  leaves it as \<open>Inl\<close>.
\<close>

fun run_vm64 :: "nat \<Rightarrow> kernel_vm64 \<Rightarrow> (unit, kernel_vm64) outcome option" where
  "run_vm64 0 k = (if running_vm64 k then None else Some (Inr (), k))"
| "run_vm64 (Suc fuel) k =
     (if running_vm64 k
      then (case cycle_vm64 k of
              (Inl e, k') \<Rightarrow> Some (Inl e, k')
            | (Inr _, k') \<Rightarrow> run_vm64 fuel k')
      else Some (Inr (), k))"

section \<open>Notions of the specification\<close>


text \<open>
  The states the machine passes through while it runs, from a state \<open>k0\<close>: after every
  fetch and after every turn of the loop, whether the turn raised or not.
\<close>

inductive_set reachable :: "numpy \<Rightarrow> kernel \<Rightarrow> kernel set" for np :: numpy and k0 :: kernel where
  reachable_start: "k0 \<in> reachable np k0"
| reachable_fetch:
    "k \<in> reachable np k0 \<Longrightarrow> running k \<Longrightarrow> fetch_instruction k = (r, k1) \<Longrightarrow> k1 \<in> reachable np k0"
| reachable_cycle:
    "k \<in> reachable np k0 \<Longrightarrow> running k \<Longrightarrow> cycle np k = (u, k') \<Longrightarrow> k' \<in> reachable np k0"

inductive_set reachable_vm64 :: "kernel_vm64 \<Rightarrow> kernel_vm64 set" for k0 :: kernel_vm64 where
  reachable_vm64_start: "k0 \<in> reachable_vm64 k0"
| reachable_vm64_fetch:
    "k \<in> reachable_vm64 k0 \<Longrightarrow> running_vm64 k \<Longrightarrow> fetch_instruction_vm64 k = (r, k1)
     \<Longrightarrow> k1 \<in> reachable_vm64 k0"
| reachable_vm64_cycle:
    "k \<in> reachable_vm64 k0 \<Longrightarrow> running_vm64 k \<Longrightarrow> cycle_vm64 k = (u, k')
     \<Longrightarrow> k' \<in> reachable_vm64 k0"

text \<open>
  Machines to evaluate on. \<open>machine\<close> is what \<^verbatim>\<open>GameWindow.__init__\<close> of EMAUI0.2 builds
  before it loads a program; \<open>machine_vm64\<close> is a FlamesVM64 kernel over a memory that
  holds the given bytes.
\<close>

definition machine :: kernel where
  "machine = Kernel_init Memory_init Graphics_init"

definition machine_vm64 :: "u8 list \<Rightarrow> kernel_vm64" where
  "machine_vm64 bs =
     Kernel_init_vm64 \<lparr>size_vm64 = int (length bs), bytearray_vm64 = bs\<rparr>
       \<lparr>framebuffer_vm64 = (\<lambda>_. 0)\<rparr>"

section \<open>Auxiliary facts\<close>

lemmas region_defs = RDRAM_END_def RDRAM_START_def RDRAM_SIZE_def
  PIF_ROM_START_def PIF_ROM_END_def PIF_ROM_SIZE_def

lemma and_0xFF: "(v::int) AND 0xFF = v mod 256"
proof -
  have "(v::int) AND mask 8 = v mod 2 ^ 8"
    by (simp only: take_bit_eq_mask [symmetric] take_bit_eq_mod)
  then show ?thesis by (simp add: mask_eq_exp_minus_1)
qed

lemma uint_low_8: "uint (word_of_int (v mod 256) :: u8) = v mod 256"
  by (simp add: uint_word_of_int)

lemma map_address_pif:
  "PIF_ROM_START \<le> a \<Longrightarrow> a \<le> PIF_ROM_END \<Longrightarrow>
   map_address a = Inr (PIF_ROM, nat (a - PIF_ROM_START))"
  by (simp add: map_address_def region_defs)

lemma map_address_rdram:
  "RDRAM_START \<le> a \<Longrightarrow> a \<le> RDRAM_END \<Longrightarrow>
   map_address a = Inr (RDRAM, nat (a - RDRAM_START))"
  by (simp add: map_address_def)

lemma write_byte_rdram:
  assumes "RDRAM_START \<le> a" and "a \<le> RDRAM_END"
  shows "write_byte m a v =
    (Inr (), m\<lparr>writes := writes m + 1, rdram := (rdram m)(nat a := word_of_int (v mod 256))\<rparr>)"
  using assms by (simp add: write_byte_def map_address_rdram and_0xFF RDRAM_START_def)

lemma read_byte_rdram:
  assumes "RDRAM_START \<le> a" and "a \<le> RDRAM_END"
  shows "read_byte m a = (Inr (rdram m (nat a)), m\<lparr>reads := reads m + 1\<rparr>)"
  using assms by (simp add: read_byte_def map_address_rdram RDRAM_START_def)

section \<open>Byte writes\<close>

text \<open>
  C9. For every address that resolves to the read-only PIF ROM region, \<open>write_byte\<close> raises
  the write-protection error and leaves every byte of RDRAM and of the PIF ROM unchanged, but
  the \<open>writes\<close> counter has been incremented by exactly 1 when it raises: the increment is
  not rolled back on the error path.
\<close>

theorem write_byte_pif_rom_counts:
  assumes "PIF_ROM_START \<le> a" and "a \<le> PIF_ROM_END"
  shows "write_byte m a v = (Inl MemoryError_pif_rom, m\<lparr>writes := writes m + 1\<rparr>)
       \<and> rdram (snd (write_byte m a v)) = rdram m
       \<and> pif_rom (snd (write_byte m a v)) = pif_rom m
       \<and> writes (snd (write_byte m a v)) = writes m + 1"
  using assms by (simp add: write_byte_def map_address_pif)

theorem write_byte_pif_rom_counts_witness:
  "PIF_ROM_START \<le> 0x1FC00000 \<and> 0x1FC00000 \<le> PIF_ROM_END
   \<and> write_byte Memory_init 0x1FC00000 0xAB = (Inl MemoryError_pif_rom, Memory_init\<lparr>writes := 1\<rparr>)
   \<and> writes (snd (write_byte Memory_init 0x1FC00000 0xAB)) = 1"
  using write_byte_pif_rom_counts [of "0x1FC00000" Memory_init "0xAB"]
  by (simp add: region_defs Memory_init_def)

text \<open>
  C10. For every mapped writable address (an address of RDRAM in EMAUI0.2, an address below
  \<open>size\<close> in FlamesVM64) and every integer value, also one larger than 255, \<open>write_byte\<close>
  does not fail and stores \<open>value mod 256\<close>: a following \<open>read_byte\<close> at that address returns
  the low 8 bits of the value. The sign of the value plays no part.
\<close>

theorem write_byte_keeps_low_8_bits:
  assumes "RDRAM_START \<le> a" and "a \<le> RDRAM_END"
    and "0 \<le> b" and "b < size_vm64 n" and "int (length (bytearray_vm64 n)) = size_vm64 n"
  shows "fst (write_byte m a v) = Inr ()
       \<and> map_sum id uint (fst (read_byte (snd (write_byte m a v)) a)) = Inr (v mod 256)
       \<and> write_byte_vm64 n b v =
           Inr (n\<lparr>bytearray_vm64 := (bytearray_vm64 n)[nat b := word_of_int (v mod 256)]\<rparr>)
       \<and> map_sum id uint (read_byte_vm64
             (n\<lparr>bytearray_vm64 := (bytearray_vm64 n)[nat b := word_of_int (v mod 256)]\<rparr>) b)
           = Inr (v mod 256)"
proof -
  have 1: "write_byte m a v =
    (Inr (), m\<lparr>writes := writes m + 1, rdram := (rdram m)(nat a := word_of_int (v mod 256))\<rparr>)"
    using assms by (simp add: write_byte_rdram)
  have 2: "fst (read_byte (m\<lparr>writes := writes m + 1,
                 rdram := (rdram m)(nat a := word_of_int (v mod 256))\<rparr>) a)
     = Inr (word_of_int (v mod 256))"
    using assms by (simp add: read_byte_rdram)
  have lt: "nat b < length (bytearray_vm64 n)"
    using assms by linarith
  have 3: "write_byte_vm64 n b v =
    Inr (n\<lparr>bytearray_vm64 := (bytearray_vm64 n)[nat b := word_of_int (v mod 256)]\<rparr>)"
    using assms lt by (simp add: write_byte_vm64_def and_0xFF)
  have 4: "read_byte_vm64
      (n\<lparr>bytearray_vm64 := (bytearray_vm64 n)[nat b := word_of_int (v mod 256)]\<rparr>) b
     = Inr (word_of_int (v mod 256))"
    using assms lt by (simp add: read_byte_vm64_def)
  show ?thesis by (simp add: 1 2 3 4 uint_low_8)
qed

theorem write_byte_keeps_low_8_bits_witness:
  "fst (write_byte Memory_init 7 0x1234) = Inr ()
   \<and> map_sum id uint (fst (read_byte (snd (write_byte Memory_init 7 0x1234)) 7)) = Inr 0x34
   \<and> map_sum id uint (read_byte_vm64
         ((Memory_init_vm64 16)\<lparr>bytearray_vm64 := (replicate 16 0)[7 := 0x34]\<rparr>) 7) = Inr 0x34"
  using write_byte_keeps_low_8_bits [of 7 7 "Memory_init_vm64 16" Memory_init "0x1234"]
  by (simp add: region_defs Memory_init_vm64_def)

section \<open>Bits and slices\<close>

lemma and_0xFFFFFFFF: "(w :: u32) AND 0xFFFFFFFF = w"
proof -
  have "(0xFFFFFFFF :: u32) = - 1" by simp
  then show ?thesis by (simp only: and.right_neutral word_bw_comms bit.conj_one_right)
qed




lemma upt_4: "[s ..< s + 4] = [s, s + 1, s + 2, s + 3]"
  by (simp add: upt_conv_Cons numeral_eq_Suc)

lemma numpy_slice_4:
  assumes "int start + 4 \<le> len"
  shows "numpy_slice len a start (start + 4) = [a start, a (start + 1), a (start + 2), a (start + 3)]"
proof -
  have "min (start + 4) (nat len) = start + 4" using assms by linarith
  then show ?thesis by (simp only: numpy_slice_def upt_4 list.map)
qed

lemma numpy_slice_short:
  assumes "len < int start + 4"
  shows "length (numpy_slice len a start (start + 4)) < 4"
  using assms by (simp add: numpy_slice_def)

lemma unpack_I_short: "length bs < 4 \<Longrightarrow> unpack_I bs = Inl struct_error"
  by (auto simp: unpack_I_def split: list.splits)

section \<open>Decoding\<close>

lemma decode_instruction_None_iff:
  "decode_instruction w = None \<longleftrightarrow>
     drop_bit 26 w = 0 \<and> w AND 0x3F \<noteq> 0x20 \<and> w AND 0x3F \<noteq> 0x22"
  by (simp add: decode_instruction_def Let_def)

lemma cycle_machine:
  "cycle np machine =
     (Inl TypeError_not_callable,
      machine\<lparr>memory := Memory_init\<lparr>reads := 4\<rparr>, pc := 4, cycles := 1\<rparr>)"
proof -
  have "numpy_slice RDRAM_SIZE (\<lambda>_. 0 :: u8) 0 (0 + 4) = [0, 0, 0, 0]"
    by (rule numpy_slice_4 [THEN trans]) (simp_all add: RDRAM_SIZE_def)
  then show ?thesis
    by (simp add: cycle_def fetch_instruction_def read_word_def map_address_def region_defs
        machine_def Kernel_init_def Memory_init_def unpack_I_def decode_instruction_def)
qed

text \<open>
  C1. Decoding is total: for every 32-bit instruction word \<open>decode_instruction\<close> returns a
  callable, also for a register-type word (opcode 0) whose funct field is neither \<open>0x20\<close>
  nor \<open>0x22\<close>. The code does not: such a word matches no \<^verbatim>\<open>return\<close>, the method ends
  and its value is \<^verbatim>\<open>None\<close>. The all-zero word is one (opcode 0, funct 0), and it is what the
  freshly built machine fetches at address 0: calling the \<^verbatim>\<open>None\<close> raises
  \<^verbatim>\<open>TypeError\<close> in \<open>run\<close>, not the \<^verbatim>\<open>ValueError\<close> of an unknown opcode.
\<close>

theorem decode_instruction_zero_word:
  "decode_instruction 0 = None
   \<and> decode_instruction 0x00221821 = None
   \<and> fst (cycle Numpy1 machine) = Inl TypeError_not_callable
   \<and> fst (cycle Numpy2 machine) = Inl TypeError_not_callable"
  by (simp add: cycle_machine) (simp add: decode_instruction_def)

section \<open>Register arithmetic\<close>

lemma call_ADD:
  "call np (ADD rd rs rt) k =
     (Inr (), k\<lparr>registers := (registers k)(rd := registers k rs + registers k rt)\<rparr>)"
  by (simp add: and_0xFFFFFFFF)

lemma call_SUB:
  "call np (SUB rd rs rt) k =
     (Inr (), k\<lparr>registers := (registers k)(rd := registers k rs - registers k rt)\<rparr>)"
  by (simp add: and_0xFFFFFFFF)




lemma uint_add32: "uint ((a::u32) + b) = (uint a + uint b) mod 2 ^ 32"
  by (simp add: uint_word_ariths)

lemma uint_sub32: "uint ((a::u32) - b) = (uint a - uint b) mod 2 ^ 32"
  by (simp add: uint_word_ariths)


lemma decode_ADD:
  assumes "drop_bit 26 w = 0" and "w AND 0x3F = 0x20"
  shows "decode_instruction w =
     Some (ADD (nat (drop_bit 11 w AND 0x1F)) (nat (drop_bit 21 w AND 0x1F))
               (nat (drop_bit 16 w AND 0x1F)))"
  using assms by (simp add: decode_instruction_def Let_def)

lemma decode_SUB:
  assumes "drop_bit 26 w = 0" and "w AND 0x3F = 0x22"
  shows "decode_instruction w =
     Some (SUB (nat (drop_bit 11 w AND 0x1F)) (nat (drop_bit 21 w AND 0x1F))
               (nat (drop_bit 16 w AND 0x1F)))"
  using assms by (simp add: decode_instruction_def Let_def)


lemma execute_add_vm64:
  assumes "drop_bit 26 w = 0"
  shows "execute_instruction_vm64 k w =
     (Inr (), k\<lparr>registers_vm64 :=
        (registers_vm64 k)(nat (drop_bit 11 w AND 0x1F) :=
           registers_vm64 k (nat (drop_bit 21 w AND 0x1F))
           + registers_vm64 k (nat (drop_bit 16 w AND 0x1F)))\<rparr>)"
  using assms by (simp add: execute_instruction_vm64_def Let_def)


text \<open>
  C4, as stated, fails in FlamesVM64: its registers are unbounded Python integers and
  opcode 0 stores their sum as it is. With \<open>registers[1] = 0xFFFFFFFF\<close> and
  \<open>registers[2] = 1\<close> the word \<open>0x00221820\<close> (rs = 1, rt = 2, rd = 3) leaves
  \<open>0x100000000\<close> in \<open>registers[3]\<close>, not 0.
\<close>

theorem add_vm64_is_not_reduced:
  "registers_vm64 (snd (execute_instruction_vm64
       ((machine_vm64 [])\<lparr>registers_vm64 := (\<lambda>_. 0)(1 := 0xFFFFFFFF, 2 := 1)\<rparr>) 0x00221820)) 3
     = 0x100000000
   \<and> (0x100000000 :: int) \<noteq> (0xFFFFFFFF + 1) mod 2 ^ 32"
  by (simp add: execute_instruction_vm64_def machine_vm64_def Kernel_init_vm64_def)

text \<open>
  C4, amended. In EMAUI0.2, for all register values, executing ADD (SUB) raises nothing
  and stores the sum (difference) reduced modulo \<open>2^32\<close> in \<open>registers[rd]\<close>: with
  \<open>registers[1] = 100\<close> and \<open>registers[2] = 200\<close>, ADD with rd = 3, rs = 1, rt = 2 yields
  \<open>registers[3] = 300\<close>; with \<open>0xFFFFFFFF\<close> and 1 it yields 0. In FlamesVM64 every word of
  opcode 0 is an addition, there is no subtraction, and the sum is stored unreduced.
\<close>

theorem add_sub_modulo_2_32:
  "call np (ADD rd rs rt) k =
     (Inr (), k\<lparr>registers := (registers k)(rd := registers k rs + registers k rt)\<rparr>)
   \<and> call np (SUB rd rs rt) k =
     (Inr (), k\<lparr>registers := (registers k)(rd := registers k rs - registers k rt)\<rparr>)
   \<and> uint (registers k rs + registers k rt)
       = (uint (registers k rs) + uint (registers k rt)) mod 2 ^ 32
   \<and> uint (registers k rs - registers k rt)
       = (uint (registers k rs) - uint (registers k rt)) mod 2 ^ 32
   \<and> (drop_bit 26 w = 0 \<and> w AND 0x3F = 0x20 \<longrightarrow>
        decode_instruction w =
          Some (ADD (nat (drop_bit 11 w AND 0x1F)) (nat (drop_bit 21 w AND 0x1F))
                    (nat (drop_bit 16 w AND 0x1F))))
   \<and> (drop_bit 26 w = 0 \<and> w AND 0x3F = 0x22 \<longrightarrow>
        decode_instruction w =
          Some (SUB (nat (drop_bit 11 w AND 0x1F)) (nat (drop_bit 21 w AND 0x1F))
                    (nat (drop_bit 16 w AND 0x1F))))
   \<and> registers (snd (call np (ADD 3 1 2) (k\<lparr>registers := (registers k)(1 := 100, 2 := 200)\<rparr>))) 3
       = 300
   \<and> registers (snd (call np (ADD 3 1 2) (k\<lparr>registers := (registers k)(1 := 0xFFFFFFFF, 2 := 1)\<rparr>))) 3
       = 0
   \<and> (drop_bit 26 w = 0 \<longrightarrow>
        execute_instruction_vm64 kv w =
          (Inr (), kv\<lparr>registers_vm64 :=
             (registers_vm64 kv)(nat (drop_bit 11 w AND 0x1F) :=
                registers_vm64 kv (nat (drop_bit 21 w AND 0x1F))
                + registers_vm64 kv (nat (drop_bit 16 w AND 0x1F)))\<rparr>))"
  by (simp add: and_0xFFFFFFFF uint_add32 uint_sub32 decode_ADD decode_SUB execute_add_vm64)

theorem add_sub_modulo_2_32_witness:
  "drop_bit 26 (0x00221820 :: int) = 0 \<and> (0x00221820 :: int) AND 0x3F = 0x20
   \<and> drop_bit 26 (0x00221822 :: int) = 0 \<and> (0x00221822 :: int) AND 0x3F = 0x22
   \<and> decode_instruction 0x00221820 = Some (ADD 3 1 2)
   \<and> decode_instruction 0x00221822 = Some (SUB 3 1 2)
   \<and> registers (snd (call Numpy1 (ADD 3 1 2)
         (machine\<lparr>registers := (registers machine)(1 := 100, 2 := 200)\<rparr>))) 3 = 300
   \<and> registers (snd (call Numpy2 (ADD 3 1 2)
         (machine\<lparr>registers := (registers machine)(1 := 100, 2 := 200)\<rparr>))) 3 = 300
   \<and> registers_vm64 (snd (execute_instruction_vm64
        ((machine_vm64 [])\<lparr>registers_vm64 := (\<lambda>_. 0)(1 := 100, 2 := 200)\<rparr>) 0x00221820)) 3 = 300"
  using add_sub_modulo_2_32 [of Numpy1 3 1 2 machine "0x00221820"
      "(machine_vm64 [])\<lparr>registers_vm64 := (\<lambda>_. 0)(1 := 100, 2 := 200)\<rparr>"]
    add_sub_modulo_2_32 [of Numpy2 3 1 2 machine "0x00221822" "machine_vm64 []"]
  by simp




section \<open>Rectangles\<close>

lemma framebuffer_draw_rectangle:
  "framebuffer (draw_rectangle g x y w h color) r c =
     (if uint y \<le> int r \<and> int r < min height (uint (y + h))
         \<and> uint x \<le> int c \<and> int c < min width (uint (x + w))
      then ucast color else framebuffer g r c)"
  by (auto simp: draw_rectangle_def Let_def)

lemma uint_add32_exact:
  "uint (a::u32) + uint b < 2 ^ 32 \<Longrightarrow> uint (a + b) = uint a + uint b"
  by (simp add: uint_add32)

lemma uint_ucast_color: "uint (ucast (color::u32) :: u16) = uint color mod 2 ^ 16"
  by (simp add: unsigned_ucast_eq take_bit_eq_mod)

text \<open>
  C8, as stated, fails. The right edge is \<^verbatim>\<open>x + width\<close> computed in \<^verbatim>\<open>uint32\<close>: with
  x = 100 and w = \<open>0xFFFFFFFF\<close> it wraps to 99, the rectangle is empty and the cell at column
  100 of row 200 keeps its value, although \<open>100 \<le> 100 < 100 + 0xFFFFFFFF\<close>. And a cell is
  a \<^verbatim>\<open>uint16\<close>: the colour \<open>0x1001F\<close> is stored as \<open>0x1F\<close>.
\<close>

theorem draw_rectangle_wraps_and_truncates:
  "framebuffer (graphics (snd (call Numpy1 DRAW_RECTANGLE
       (machine\<lparr>registers := (\<lambda>_. 0)(1 := 100, 2 := 200, 3 := 0xFFFFFFFF, 4 := 10, 5 := 0x1F)\<rparr>))))
     200 100 = 0
   \<and> framebuffer (graphics (snd (call Numpy2 DRAW_RECTANGLE
       (machine\<lparr>registers := (\<lambda>_. 0)(1 := 100, 2 := 200, 3 := 0xFFFFFFFF, 4 := 10, 5 := 0x1F)\<rparr>))))
     200 100 = 0
   \<and> (100::int) < 100 + 0xFFFFFFFF
   \<and> uint (framebuffer (graphics (snd (call Numpy1 DRAW_RECTANGLE
       (machine\<lparr>registers := (\<lambda>_. 0)(1 := 100, 2 := 200, 3 := 150, 4 := 10, 5 := 0x1001F)\<rparr>))))
     200 100) = 0x1F
   \<and> uint (framebuffer (graphics (snd (call Numpy2 DRAW_RECTANGLE
       (machine\<lparr>registers := (\<lambda>_. 0)(1 := 100, 2 := 200, 3 := 150, 4 := 10, 5 := 0x1001F)\<rparr>))))
     200 100) = 0x1F"
  by (simp add: framebuffer_draw_rectangle machine_def Kernel_init_def Graphics_init_def
      width_def height_def)

text \<open>
  C8, amended. For all x, y, w, h and colour in registers 1 to 5, executing DrawRectangle
  raises nothing, writes the colour reduced modulo \<open>2^16\<close> to exactly the cells of columns
  \<open>[x, (x + w) mod 2^32)\<close> and rows \<open>[y, (y + h) mod 2^32)\<close> that lie in
  \<open>[0, 640) \<times> [0, 480)\<close>, and leaves every other cell at its prior value. When
  \<open>x + w < 2^32\<close>, \<open>y + h < 2^32\<close> and the colour is below \<open>2^16\<close>, these are the cells of the
  intersection of \<open>[x, x + w) \<times> [y, y + h)\<close> with the screen and they read the colour
  itself: x = 100, y = 200, w = 150, h = 10, colour \<open>0x1F\<close> makes all cells of
  \<open>[100, 250) \<times> [200, 210)\<close> read \<open>0x1F\<close> and changes no other cell.
\<close>

theorem draw_rectangle_clipped:
  "call np DRAW_RECTANGLE k =
     (Inr (), k\<lparr>graphics := draw_rectangle (graphics k) (registers k 1) (registers k 2)
                     (registers k 3) (registers k 4) (registers k 5)\<rparr>)
   \<and> decode_instruction 0xB4000000 = Some DRAW_RECTANGLE
   \<and> framebuffer (draw_rectangle g x y w h color) r c =
       (if uint y \<le> int r \<and> int r < min 480 (uint (y + h))
           \<and> uint x \<le> int c \<and> int c < min 640 (uint (x + w))
        then ucast color else framebuffer g r c)
   \<and> uint (ucast color :: u16) = uint color mod 2 ^ 16
   \<and> (uint x + uint w < 2 ^ 32 \<and> uint y + uint h < 2 ^ 32 \<and> uint color < 2 ^ 16 \<longrightarrow>
        uint (framebuffer (draw_rectangle g x y w h color) r c) =
          (if uint x \<le> int c \<and> int c < uint x + uint w \<and> int c < 640
              \<and> uint y \<le> int r \<and> int r < uint y + uint h \<and> int r < 480
           then uint color else uint (framebuffer g r c)))
   \<and> framebuffer (draw_rectangle g 100 200 150 10 0x1F) r c =
       (if 100 \<le> c \<and> c < 250 \<and> 200 \<le> r \<and> r < 210 then 0x1F else framebuffer g r c)"
proof -
  have a: "uint x + uint w < 2 ^ 32 \<and> uint y + uint h < 2 ^ 32 \<and> uint color < 2 ^ 16 \<longrightarrow>
        uint (framebuffer (draw_rectangle g x y w h color) r c) =
          (if uint x \<le> int c \<and> int c < uint x + uint w \<and> int c < 640
              \<and> uint y \<le> int r \<and> int r < uint y + uint h \<and> int r < 480
           then uint color else uint (framebuffer g r c))"
    by (auto simp: framebuffer_draw_rectangle uint_add32_exact uint_ucast_color
        width_def height_def)
  have b: "framebuffer (draw_rectangle g 100 200 150 10 0x1F) r c =
       (if 100 \<le> c \<and> c < 250 \<and> 200 \<le> r \<and> r < 210 then 0x1F else framebuffer g r c)"
    by (auto simp: framebuffer_draw_rectangle width_def height_def)
  have c: "decode_instruction 0xB4000000 = Some DRAW_RECTANGLE"
    by (simp add: decode_instruction_def)
  have d: "framebuffer (draw_rectangle g x y w h color) r c =
       (if uint y \<le> int r \<and> int r < min 480 (uint (y + h))
           \<and> uint x \<le> int c \<and> int c < min 640 (uint (x + w))
        then ucast color else framebuffer g r c)"
    by (simp add: framebuffer_draw_rectangle width_def height_def)
  have e: "call np DRAW_RECTANGLE k =
     (Inr (), k\<lparr>graphics := draw_rectangle (graphics k) (registers k 1) (registers k 2)
                     (registers k 3) (registers k 4) (registers k 5)\<rparr>)"
    by (simp add: Let_def)
  from a b c d e uint_ucast_color [of color] show ?thesis by blast
qed

theorem draw_rectangle_clipped_witness:
  "uint (100 :: u32) + uint (150 :: u32) < 2 ^ 32 \<and> uint (200 :: u32) + uint (10 :: u32) < 2 ^ 32
   \<and> uint (0x1F :: u32) < 2 ^ 16
   \<and> uint (framebuffer (draw_rectangle Graphics_init 100 200 150 10 0x1F) 205 120) = 0x1F
   \<and> uint (framebuffer (draw_rectangle Graphics_init 100 200 150 10 0x1F) 205 250) = 0"
  using draw_rectangle_clipped [of Numpy1 machine Graphics_init 100 200 150 10 "0x1F" 205 120]
    draw_rectangle_clipped [of Numpy2 machine Graphics_init 100 200 150 10 "0x1F" 205 250]
  by (simp add: Graphics_init_def)

section \<open>The program counter\<close>

lemma fetch_instruction_pc:
  "fetch_instruction k = (r, k1) \<Longrightarrow>
     pc k1 = (case r of Inl _ \<Rightarrow> pc k | Inr _ \<Rightarrow> pc k + 4)"
  by (auto simp: fetch_instruction_def split: prod.splits sum.splits)

lemma fetch_instruction_pc_mod_4:
  assumes "fetch_instruction k = (r, k1)" and "pc k mod 4 = 0"
  shows "pc k1 mod 4 = 0"
proof (cases r)
  case (Inl e)
  with fetch_instruction_pc [OF assms(1)] assms(2) show ?thesis by simp
next
  case (Inr w)
  with fetch_instruction_pc [OF assms(1)] have "pc k1 = pc k + 4" by simp
  with assms(2) show ?thesis by presburger
qed

lemma call_pc: "call np f k = (u, k') \<Longrightarrow> pc k' = pc k"
  by (cases f) (auto simp: Let_def split: numpy.splits if_splits)

lemma cycle_pc:
  assumes "cycle np k = (u, k')"
  shows "pc k' = pc k \<or> pc k' = pc k + 4"
proof (cases "fetch_instruction k")
  case (Pair r k1)
  note f = fetch_instruction_pc [OF Pair]
  show ?thesis
  proof (cases r)
    case (Inl e)
    with assms Pair f show ?thesis by (simp add: cycle_def)
  next
    case (Inr w)
    show ?thesis
    proof (cases "decode_instruction w")
      case None
      with assms Pair Inr f show ?thesis by (auto simp: cycle_def)
    next
      case (Some g)
      with assms Pair Inr have "call np g k1 = (u, k')" by (simp add: cycle_def)
      from call_pc [OF this] f Inr show ?thesis by simp
    qed
  qed
qed

lemma reachable_pc:
  assumes "k \<in> reachable np k0" and "pc k0 mod 4 = 0"
  shows "pc k mod 4 = 0"
  using assms
proof (induction rule: reachable.induct)
  case reachable_start
  then show ?case by simp
next
  case (reachable_fetch k r k1)
  from fetch_instruction_pc_mod_4 [OF reachable_fetch.hyps(3)] reachable_fetch.IH
    reachable_fetch.prems
  show ?case by simp
next
  case (reachable_cycle k u k')
  from cycle_pc [OF reachable_cycle.hyps(3)] reachable_cycle.IH reachable_cycle.prems
  show ?case by presburger
qed

lemma jump_target_mod_4: "((a::int) AND 0xF0000000 OR push_bit 2 t) mod 4 = 0"
proof -
  have "take_bit 2 ((a::int) AND 0xF0000000 OR push_bit 2 t) = 0"
    by (simp add: take_bit_push_bit) 
  then show ?thesis by (simp add: take_bit_eq_mod)
qed

lemma fetch_instruction_vm64_pc:
  "fetch_instruction_vm64 k = (r, k1) \<Longrightarrow>
     pc_vm64 k1 = (case r of Inl _ \<Rightarrow> pc_vm64 k | Inr _ \<Rightarrow> pc_vm64 k + 4)"
  by (auto simp: fetch_instruction_vm64_def split: sum.splits)

lemma fetch_instruction_vm64_pc_mod_4:
  assumes "fetch_instruction_vm64 k = (r, k1)" and "pc_vm64 k mod 4 = 0"
  shows "pc_vm64 k1 mod 4 = 0"
proof (cases r)
  case (Inl e)
  with fetch_instruction_vm64_pc [OF assms(1)] assms(2) show ?thesis by simp
next
  case (Inr w)
  with fetch_instruction_vm64_pc [OF assms(1)] have "pc_vm64 k1 = pc_vm64 k + 4" by simp
  with assms(2) show ?thesis by presburger
qed

lemma execute_jump_vm64:
  assumes "drop_bit 26 w = 2"
  shows "execute_instruction_vm64 k w =
     (Inr (), k\<lparr>pc_vm64 := (pc_vm64 k AND 0xF0000000) OR push_bit 2 (w AND 0x3FFFFFF)\<rparr>)"
  using assms by (simp add: execute_instruction_vm64_def Let_def)

lemma pc_vm64_update: "pc_vm64 (k\<lparr>pc_vm64 := v\<rparr>) = v"
  by simp

lemma execute_instruction_vm64_pc:
  assumes "execute_instruction_vm64 k w = (u, k')" and "pc_vm64 k mod 4 = 0"
  shows "pc_vm64 k' mod 4 = 0"
proof (cases "drop_bit 26 w = 2")
  case True
  from assms(1) have "k' = k\<lparr>pc_vm64 := (pc_vm64 k AND 0xF0000000) OR push_bit 2 (w AND 0x3FFFFFF)\<rparr>"
    by (simp only: execute_jump_vm64 [OF True] prod.inject)
  then have "pc_vm64 k' = (pc_vm64 k AND 0xF0000000) OR push_bit 2 (w AND 0x3FFFFFF)"
    by (simp only: pc_vm64_update)
  then show ?thesis by (simp only: jump_target_mod_4)
next
  case False
  with assms show ?thesis
    by (auto simp: execute_instruction_vm64_def Let_def split: if_splits)
qed

lemma cycle_vm64_pc:
  assumes "cycle_vm64 k = (u, k')" and "pc_vm64 k mod 4 = 0"
  shows "pc_vm64 k' mod 4 = 0"
proof (cases "fetch_instruction_vm64 k")
  case (Pair r k1)
  from fetch_instruction_vm64_pc_mod_4 [OF Pair assms(2)]
  have k1: "pc_vm64 k1 mod 4 = 0" .
  show ?thesis
  proof (cases r)
    case (Inl e)
    with assms Pair k1 show ?thesis by (simp add: cycle_vm64_def)
  next
    case (Inr w)
    with assms Pair have "execute_instruction_vm64 k1 w = (u, k')" by (simp add: cycle_vm64_def)
    from execute_instruction_vm64_pc [OF this k1] show ?thesis .
  qed
qed

lemma reachable_vm64_pc:
  assumes "k \<in> reachable_vm64 k0" and "pc_vm64 k0 mod 4 = 0"
  shows "pc_vm64 k mod 4 = 0"
  using assms
proof (induction rule: reachable_vm64.induct)
  case reachable_vm64_start
  then show ?case by simp
next
  case (reachable_vm64_fetch k r k1)
  from fetch_instruction_vm64_pc_mod_4 [OF reachable_vm64_fetch.hyps(3)]
    reachable_vm64_fetch.IH reachable_vm64_fetch.prems
  show ?case by simp
next
  case (reachable_vm64_cycle k u k')
  from cycle_vm64_pc [OF reachable_vm64_cycle.hyps(3)]
    reachable_vm64_cycle.IH reachable_vm64_cycle.prems
  show ?case by simp
qed

lemma load_program_pc: "load_program ki program = (Inr (), k0) \<Longrightarrow> pc k0 = 0"
  by (auto simp: load_program_def split: prod.splits sum.splits)

lemma load_program_vm64_pc: "load_program_vm64 ki program = (Inr (), k0) \<Longrightarrow> pc_vm64 k0 = 0"
  by (auto simp: load_program_vm64_def split: prod.splits sum.splits)

text \<open>
  C7. Starting from \<open>pc = 0\<close> after program load, the program counter is a multiple of 4 in
  every state the machine reaches while it runs, in both variants: a fetch that succeeds
  advances \<open>pc\<close> by exactly 4, and the jump of FlamesVM64 (opcode 2, the only operation
  that writes \<open>pc\<close>) sets it to (advanced \<open>pc\<close> AND \<open>0xF0000000\<close>) OR (26-bit target
  shifted left by 2), again a multiple of 4.
\<close>

theorem pc_multiple_of_4:
  "(load_program ki program = (Inr (), ks) \<and> k \<in> reachable np ks \<longrightarrow> pc k mod 4 = 0)
   \<and> (load_program_vm64 vi programv = (Inr (), vs) \<and> v \<in> reachable_vm64 vs
        \<longrightarrow> pc_vm64 v mod 4 = 0)
   \<and> (fetch_instruction k = (Inr w, kf) \<longrightarrow> pc kf = pc k + 4)
   \<and> (fetch_instruction_vm64 v = (Inr w, vf) \<longrightarrow> pc_vm64 vf = pc_vm64 v + 4)
   \<and> (drop_bit 26 j = 2 \<longrightarrow>
        execute_instruction_vm64 vf j =
          (Inr (), vf\<lparr>pc_vm64 := (pc_vm64 vf AND 0xF0000000) OR push_bit 2 (j AND 0x3FFFFFF)\<rparr>)
        \<and> pc_vm64 (snd (execute_instruction_vm64 vf j)) mod 4 = 0)"
proof -
  have 1: "load_program ki program = (Inr (), ks) \<and> k \<in> reachable np ks \<longrightarrow> pc k mod 4 = 0"
    using reachable_pc [of k np ks] load_program_pc [of ki program ks] by simp
  have 2: "load_program_vm64 vi programv = (Inr (), vs) \<and> v \<in> reachable_vm64 vs
        \<longrightarrow> pc_vm64 v mod 4 = 0"
    using reachable_vm64_pc [of v vs] load_program_vm64_pc [of vi programv vs] by simp
  have 3: "fetch_instruction k = (Inr w, kf) \<longrightarrow> pc kf = pc k + 4"
    using fetch_instruction_pc [of k "Inr w" kf] by simp
  have 4: "fetch_instruction_vm64 v = (Inr w, vf) \<longrightarrow> pc_vm64 vf = pc_vm64 v + 4"
    using fetch_instruction_vm64_pc [of v "Inr w" vf] by simp
  have 5: "drop_bit 26 j = 2 \<longrightarrow>
        execute_instruction_vm64 vf j =
          (Inr (), vf\<lparr>pc_vm64 := (pc_vm64 vf AND 0xF0000000) OR push_bit 2 (j AND 0x3FFFFFF)\<rparr>)
        \<and> pc_vm64 (snd (execute_instruction_vm64 vf j)) mod 4 = 0"
  proof
    assume j: "drop_bit 26 j = 2"
    have "pc_vm64 (snd (execute_instruction_vm64 vf j)) =
            (pc_vm64 vf AND 0xF0000000) OR push_bit 2 (j AND 0x3FFFFFF)"
      by (simp only: execute_jump_vm64 [OF j] snd_conv pc_vm64_update)
    then have "pc_vm64 (snd (execute_instruction_vm64 vf j)) mod 4 = 0"
      by (simp only: jump_target_mod_4)
    with execute_jump_vm64 [OF j, of vf]
    show "execute_instruction_vm64 vf j =
          (Inr (), vf\<lparr>pc_vm64 := (pc_vm64 vf AND 0xF0000000) OR push_bit 2 (j AND 0x3FFFFFF)\<rparr>)
        \<and> pc_vm64 (snd (execute_instruction_vm64 vf j)) mod 4 = 0"
      by (rule conjI)
  qed
  from 1 2 3 4 5 show ?thesis by blast
qed

lemma cycle_in_reachable: "running k \<Longrightarrow> snd (cycle np k) \<in> reachable np k"
  by (rule reachable_cycle [OF reachable_start, where u = "fst (cycle np k)"]) simp_all

lemma cycle_vm64_in_reachable: "running_vm64 k \<Longrightarrow> snd (cycle_vm64 k) \<in> reachable_vm64 k"
  by (rule reachable_vm64_cycle [OF reachable_vm64_start, of k "fst (cycle_vm64 k)"]) simp_all

lemma load_halt:
  "load_program machine [0xFC, 0, 0, 0] =
     (Inr (), machine\<lparr>memory := Memory_init\<lparr>rdram := (\<lambda>_. 0)(0 := 0xFC), writes := 4\<rparr>\<rparr>)"
  by (simp add: load_program_def write_byte_def map_address_def region_defs machine_def
      Kernel_init_def Memory_init_def fun_eq_iff)

lemma load_halt_vm64:
  "load_program_vm64 (machine_vm64 [0, 0, 0, 0]) [0xFC, 0, 0, 0] =
     (Inr (), machine_vm64 [0xFC, 0, 0, 0])"
  by (simp add: load_program_vm64_def write_byte_vm64_def machine_vm64_def Kernel_init_vm64_def)

lemma fetch_machine:
  "fetch_instruction machine =
     (Inr 0, machine\<lparr>memory := Memory_init\<lparr>reads := 4\<rparr>, pc := 4, cycles := 1\<rparr>)"
proof -
  have "numpy_slice RDRAM_SIZE (\<lambda>_. 0 :: u8) 0 (0 + 4) = [0, 0, 0, 0]"
    by (rule numpy_slice_4 [THEN trans]) (simp_all add: RDRAM_SIZE_def)
  then show ?thesis
    by (simp add: fetch_instruction_def read_word_def map_address_def region_defs
        machine_def Kernel_init_def Memory_init_def unpack_I_def)
qed

lemma fetch_machine_vm64:
  "fetch_instruction_vm64 (machine_vm64 [0xFC, 0, 0, 0]) =
     (Inr 0xFC000000, (machine_vm64 [0xFC, 0, 0, 0])\<lparr>pc_vm64 := 4\<rparr>)"
  by (simp add: fetch_instruction_vm64_def read_word_vm64_def machine_vm64_def
      Kernel_init_vm64_def py_getslice_def py_slice_bounds_def unpack_I_def)

theorem pc_multiple_of_4_witness:
  "load_program machine [0xFC, 0, 0, 0] =
     (Inr (), machine\<lparr>memory := Memory_init\<lparr>rdram := (\<lambda>_. 0)(0 := 0xFC), writes := 4\<rparr>\<rparr>)
   \<and> pc (snd (cycle Numpy1
          (machine\<lparr>memory := Memory_init\<lparr>rdram := (\<lambda>_. 0)(0 := 0xFC), writes := 4\<rparr>\<rparr>))) mod 4 = 0
   \<and> pc (snd (cycle Numpy2
          (machine\<lparr>memory := Memory_init\<lparr>rdram := (\<lambda>_. 0)(0 := 0xFC), writes := 4\<rparr>\<rparr>))) mod 4 = 0
   \<and> load_program_vm64 (machine_vm64 [0, 0, 0, 0]) [0xFC, 0, 0, 0] =
       (Inr (), machine_vm64 [0xFC, 0, 0, 0])
   \<and> pc_vm64 (snd (cycle_vm64 (machine_vm64 [0xFC, 0, 0, 0]))) mod 4 = 0
   \<and> pc (snd (fetch_instruction machine)) = pc machine + 4
   \<and> pc_vm64 (snd (fetch_instruction_vm64 (machine_vm64 [0xFC, 0, 0, 0]))) = 4
   \<and> drop_bit 26 (0x08000003 :: int) = 2
   \<and> pc_vm64 (snd (execute_instruction_vm64 ((machine_vm64 [])\<lparr>pc_vm64 := 4\<rparr>) 0x08000003)) = 12"
proof -
  let ?k0 = "machine\<lparr>memory := Memory_init\<lparr>rdram := (\<lambda>_. 0)(0 := 0xFC), writes := 4\<rparr>\<rparr>"
  let ?v0 = "machine_vm64 [0xFC, 0, 0, 0]"
  have r: "snd (cycle np ?k0) \<in> reachable np ?k0" for np
    by (rule cycle_in_reachable) (simp add: machine_def Kernel_init_def)
  have rv: "snd (cycle_vm64 ?v0) \<in> reachable_vm64 ?v0"
    by (rule cycle_vm64_in_reachable) (simp add: machine_vm64_def Kernel_init_vm64_def)
  have j: "drop_bit 26 (0x08000003 :: int) = 2" by simp
  have 1: "pc (snd (cycle np ?k0)) mod 4 = 0" for np
    using pc_multiple_of_4 [where ki = machine and program = "[0xFC, 0, 0, 0]" and ks = ?k0
        and k = "snd (cycle np ?k0)" and np = np] load_halt r [of np] by blast
  have 2: "pc_vm64 (snd (cycle_vm64 ?v0)) mod 4 = 0"
    using pc_multiple_of_4 [where vi = "machine_vm64 [0, 0, 0, 0]" and programv = "[0xFC, 0, 0, 0]"
        and vs = ?v0 and v = "snd (cycle_vm64 ?v0)"] load_halt_vm64 rv by blast
  have 3: "pc (snd (fetch_instruction machine)) = pc machine + 4"
    using pc_multiple_of_4 [where k = machine and w = 0
        and kf = "machine\<lparr>memory := Memory_init\<lparr>reads := 4\<rparr>, pc := 4, cycles := 1\<rparr>"]
      fetch_machine by simp
  have 4: "pc_vm64 (snd (fetch_instruction_vm64 ?v0)) = 4"
    using pc_multiple_of_4 [where v = ?v0 and w = "0xFC000000" and vf = "?v0\<lparr>pc_vm64 := 4\<rparr>"]
      fetch_machine_vm64 by (simp add: machine_vm64_def Kernel_init_vm64_def)
  have 5: "pc_vm64 (snd (execute_instruction_vm64 ((machine_vm64 [])\<lparr>pc_vm64 := 4\<rparr>) 0x08000003)) = 12"
    using pc_multiple_of_4 [where j = "0x08000003" and vf = "(machine_vm64 [])\<lparr>pc_vm64 := 4\<rparr>"] j
    by simp
  from 1 [of Numpy1] 1 [of Numpy2] 2 3 4 5 j load_halt load_halt_vm64 show ?thesis by simp
qed

section \<open>Running\<close>

lemma run_loop_halts: "run_loop np k = (Inr u, k') \<Longrightarrow> \<not> running k'"
proof (induction np k rule: run_loop.induct)
  case (1 np k)
  show ?case
  proof (cases "running k")
    case False
    with "1.prems" show ?thesis by (simp add: run_loop.simps)
  next
    case True
    obtain r k1 where c: "cycle np k = (r, k1)" by (cases "cycle np k")
    show ?thesis
    proof (cases r)
      case (Inl e)
      with True c "1.prems" show ?thesis by (simp add: run_loop.simps)
    next
      case (Inr x)
      with True c "1.prems" have "run_loop np k1 = (Inr u, k')" by (simp add: run_loop.simps)
      with "1.IH" [OF True c [symmetric] Inr] show ?thesis .
    qed
  qed
qed

lemma run_not_running: "\<not> running (run np k)"
proof (cases "run_loop np k")
  case (Pair r k')
  then show ?thesis by (cases r) (simp_all add: run_def run_loop_halts)
qed

lemma run_idle: "\<not> running k \<Longrightarrow> run np k = k"
  by (simp add: run_def run_loop.simps)

lemma run_error: "running k \<Longrightarrow> cycle np k = (Inl e, k') \<Longrightarrow>
    run np k = k'\<lparr>running := False, shown := shown k' @ [e]\<rparr>"
  by (simp add: run_def run_loop.simps)

lemma run_next: "running k \<Longrightarrow> cycle np k = (Inr u, k') \<Longrightarrow> run np k = run np k'"
  by (simp add: run_def run_loop.simps [of np k])

lemma decode_HALT: "drop_bit 26 w = 0x3F \<Longrightarrow> decode_instruction w = Some HALT"
  by (simp add: decode_instruction_def)

lemma execute_halt_vm64:
  "drop_bit 26 w = 63 \<Longrightarrow> execute_instruction_vm64 k w = (Inr (), k\<lparr>running_vm64 := False\<rparr>)"
  by (simp add: execute_instruction_vm64_def)

lemma run_vm64_halts: "run_vm64 fuel k = Some (Inr u, k') \<Longrightarrow> \<not> running_vm64 k'"
proof (induction fuel arbitrary: k)
  case 0
  then show ?case by (simp split: if_splits)
next
  case (Suc fuel)
  show ?case
  proof (cases "running_vm64 k")
    case False
    with Suc.prems show ?thesis by simp
  next
    case True
    obtain r k1 where c: "cycle_vm64 k = (r, k1)" by (cases "cycle_vm64 k")
    show ?thesis
    proof (cases r)
      case (Inl x)
      with True c Suc.prems show ?thesis by simp
    next
      case (Inr x)
      with True c Suc.prems have "run_vm64 fuel k1 = Some (Inr u, k')" by simp
      then show ?thesis by (rule Suc.IH)
    qed
  qed
qed

lemma cycle_vm64_error_running:
  "cycle_vm64 k = (Inl e, k') \<Longrightarrow> running_vm64 k' = running_vm64 k"
  by (auto simp: cycle_vm64_def fetch_instruction_vm64_def execute_instruction_vm64_def Let_def
      split: sum.splits if_splits)

lemma run_vm64_error_running: "run_vm64 fuel k = Some (Inl e, k') \<Longrightarrow> running_vm64 k'"
proof (induction fuel arbitrary: k)
  case 0
  then show ?case by (simp split: if_splits)
next
  case (Suc fuel)
  show ?case
  proof (cases "running_vm64 k")
    case False
    with Suc.prems show ?thesis by simp
  next
    case True
    obtain r k1 where c: "cycle_vm64 k = (r, k1)" by (cases "cycle_vm64 k")
    show ?thesis
    proof (cases r)
      case (Inl x)
      with True c Suc.prems have "k' = k1" and "x = e" by simp_all
      with cycle_vm64_error_running [of k x k1] c Inl True show ?thesis by simp
    next
      case (Inr x)
      with True c Suc.prems have "run_vm64 fuel k1 = Some (Inl e, k')" by simp
      then show ?thesis by (rule Suc.IH)
    qed
  qed
qed

text \<open>
  C3, as stated, fails in FlamesVM64: its \<open>run\<close> has no handler. On a memory whose first
  word has the unknown opcode 5, the first turn raises \<^verbatim>\<open>ValueError\<close>, which leaves
  \<open>run\<close> unhandled, and \<open>running\<close> is still set in the state left behind.
\<close>

theorem run_vm64_lets_the_error_out:
  "run_vm64 (Suc 0) (machine_vm64 [0x14, 0, 0, 0]) =
     Some (Inl (ValueError_unknown_opcode 5), (machine_vm64 [0x14, 0, 0, 0])\<lparr>pc_vm64 := 4\<rparr>)
   \<and> running_vm64 ((machine_vm64 [0x14, 0, 0, 0])\<lparr>pc_vm64 := 4\<rparr>)"
  by (simp add: cycle_vm64_def fetch_instruction_vm64_def read_word_vm64_def machine_vm64_def
      Kernel_init_vm64_def py_getslice_def py_slice_bounds_def unpack_I_def
      execute_instruction_vm64_def)

text \<open>
  C3, amended. In both variants the machine runs until the halt opcode clears \<open>running\<close>
  or a turn raises; a machine that is not running executes nothing and \<open>run\<close> returns it
  as it is; a turn that raises nothing is followed by the rest of the run; the halt opcode
  (\<open>0x3F\<close>) clears \<open>running\<close> without an error, and a run that ends without an error ends
  not running. In EMAUI0.2 \<open>run\<close> always returns, and returns a machine that is not
  running: a turn that raises (in the fetch, on calling the \<^verbatim>\<open>None\<close> a word decoded to,
  on an unknown opcode, in the arithmetic) ends the run, the handler shows the error and
  clears \<open>running\<close>, and nothing propagates to the caller. In FlamesVM64 a turn that raises
  ends the run as well, but \<open>run\<close> has no handler: the error propagates to the caller and
  \<open>running\<close> is still set.
\<close>

theorem run_ends_not_running:
  "\<not> running (run np k)
   \<and> (\<not> running k \<longrightarrow> run np k = k)
   \<and> (running k \<and> cycle np k = (Inl e, k') \<longrightarrow>
        run np k = k'\<lparr>running := False, shown := shown k' @ [e]\<rparr>)
   \<and> (running k \<and> cycle np k = (Inr u, k') \<longrightarrow> run np k = run np k')
   \<and> (drop_bit 26 w = 0x3F \<longrightarrow> decode_instruction w = Some HALT)
   \<and> call np HALT k = (Inr (), k\<lparr>running := False\<rparr>)
   \<and> (\<not> running_vm64 v \<longrightarrow> run_vm64 fuel v = Some (Inr (), v))
   \<and> (running_vm64 v \<and> cycle_vm64 v = (Inl e, v') \<longrightarrow>
        run_vm64 (Suc fuel) v = Some (Inl e, v'))
   \<and> (running_vm64 v \<and> cycle_vm64 v = (Inr u, v') \<longrightarrow>
        run_vm64 (Suc fuel) v = run_vm64 fuel v')
   \<and> (drop_bit 26 w = 0x3F \<longrightarrow>
        execute_instruction_vm64 v w = (Inr (), v\<lparr>running_vm64 := False\<rparr>))
   \<and> (run_vm64 fuel v = Some (Inr u, v') \<longrightarrow> \<not> running_vm64 v')
   \<and> (run_vm64 fuel v = Some (Inl e, v') \<longrightarrow> running_vm64 v')"
proof -
  have i: "\<not> running_vm64 v \<longrightarrow> run_vm64 fuel v = Some (Inr (), v)"
    by (cases fuel) simp_all
  have j: "running_vm64 v \<and> cycle_vm64 v = (Inl e, v') \<longrightarrow>
        run_vm64 (Suc fuel) v = Some (Inl e, v')"
    by simp
  have l: "running_vm64 v \<and> cycle_vm64 v = (Inr u, v') \<longrightarrow>
        run_vm64 (Suc fuel) v = run_vm64 fuel v'"
    by simp
  have h: "call np HALT k = (Inr (), k\<lparr>running := False\<rparr>)"
    by simp
  from h i j l run_not_running [of np k] run_idle [of k np] run_error [of k np e k']
    run_next [of k np u k'] decode_HALT [of w] execute_halt_vm64 [of w v]
    run_vm64_halts [of fuel v u v'] run_vm64_error_running [of fuel v e v']
  show ?thesis by blast
qed

lemma cycle_halt:
  "cycle np (machine\<lparr>memory := Memory_init\<lparr>rdram := (\<lambda>_. 0)(0 := 0xFC), writes := 4\<rparr>\<rparr>) =
     (Inr (), machine\<lparr>memory := Memory_init\<lparr>rdram := (\<lambda>_. 0)(0 := 0xFC), writes := 4, reads := 4\<rparr>,
                     pc := 4, cycles := 1, running := False\<rparr>)"
proof -
  have "numpy_slice RDRAM_SIZE ((\<lambda>_. 0 :: u8)(0 := 0xFC)) 0 (0 + 4) = [0xFC, 0, 0, 0]"
    by (rule numpy_slice_4 [THEN trans]) (simp_all add: RDRAM_SIZE_def)
  then show ?thesis
    by (simp add: cycle_def fetch_instruction_def read_word_def map_address_def region_defs
        machine_def Kernel_init_def Memory_init_def unpack_I_def decode_instruction_def)
qed

lemma cycle_halt_vm64:
  "cycle_vm64 (machine_vm64 [0xFC, 0, 0, 0]) =
     (Inr (), (machine_vm64 [0xFC, 0, 0, 0])\<lparr>pc_vm64 := 4, running_vm64 := False\<rparr>)"
  by (simp add: cycle_vm64_def fetch_instruction_vm64_def read_word_vm64_def machine_vm64_def
      Kernel_init_vm64_def py_getslice_def py_slice_bounds_def unpack_I_def
      execute_instruction_vm64_def)

lemma cycle_unknown_vm64:
  "cycle_vm64 (machine_vm64 [0x14, 0, 0, 0]) =
     (Inl (ValueError_unknown_opcode 5), (machine_vm64 [0x14, 0, 0, 0])\<lparr>pc_vm64 := 4\<rparr>)"
  by (simp add: cycle_vm64_def fetch_instruction_vm64_def read_word_vm64_def machine_vm64_def
      Kernel_init_vm64_def py_getslice_def py_slice_bounds_def unpack_I_def
      execute_instruction_vm64_def)

theorem run_ends_not_running_witness:
  "run Numpy2 machine =
     machine\<lparr>memory := Memory_init\<lparr>reads := 4\<rparr>, pc := 4, cycles := 1,
             running := False, shown := [TypeError_not_callable]\<rparr>
   \<and> run Numpy2 (machine\<lparr>running := False\<rparr>) = machine\<lparr>running := False\<rparr>
   \<and> run Numpy1 (machine\<lparr>memory := Memory_init\<lparr>rdram := (\<lambda>_. 0)(0 := 0xFC), writes := 4\<rparr>\<rparr>) =
       machine\<lparr>memory := Memory_init\<lparr>rdram := (\<lambda>_. 0)(0 := 0xFC), writes := 4, reads := 4\<rparr>,
               pc := 4, cycles := 1, running := False\<rparr>
   \<and> drop_bit 26 (0xFC000000 :: int) = 0x3F
   \<and> decode_instruction 0xFC000000 = Some HALT
   \<and> run_vm64 3 ((machine_vm64 [])\<lparr>running_vm64 := False\<rparr>) =
       Some (Inr (), (machine_vm64 [])\<lparr>running_vm64 := False\<rparr>)
   \<and> execute_instruction_vm64 (machine_vm64 []) 0xFC000000 =
       (Inr (), (machine_vm64 [])\<lparr>running_vm64 := False\<rparr>)
   \<and> run_vm64 (Suc (Suc 0)) (machine_vm64 [0xFC, 0, 0, 0]) =
       Some (Inr (), (machine_vm64 [0xFC, 0, 0, 0])\<lparr>pc_vm64 := 4, running_vm64 := False\<rparr>)
   \<and> \<not> running_vm64 ((machine_vm64 [0xFC, 0, 0, 0])\<lparr>pc_vm64 := 4, running_vm64 := False\<rparr>)
   \<and> run_vm64 (Suc 0) (machine_vm64 [0x14, 0, 0, 0]) =
       Some (Inl (ValueError_unknown_opcode 5), (machine_vm64 [0x14, 0, 0, 0])\<lparr>pc_vm64 := 4\<rparr>)
   \<and> running_vm64 ((machine_vm64 [0x14, 0, 0, 0])\<lparr>pc_vm64 := 4\<rparr>)"
proof -
  let ?h = "machine\<lparr>memory := Memory_init\<lparr>rdram := (\<lambda>_. 0)(0 := 0xFC), writes := 4\<rparr>\<rparr>"
  let ?h' = "machine\<lparr>memory := Memory_init\<lparr>rdram := (\<lambda>_. 0)(0 := 0xFC), writes := 4, reads := 4\<rparr>,
               pc := 4, cycles := 1, running := False\<rparr>"
  let ?v = "machine_vm64 [0x14, 0, 0, 0]"
  let ?g = "machine_vm64 [0xFC, 0, 0, 0]"
  let ?g' = "?g\<lparr>pc_vm64 := 4, running_vm64 := False\<rparr>"
  have m: "running machine" and h: "running ?h" and h': "\<not> running ?h'"
    by (simp_all add: machine_def Kernel_init_def)
  have rv: "running_vm64 ?v" and rg: "running_vm64 ?g" and rg': "\<not> running_vm64 ?g'"
    by (simp_all add: machine_vm64_def Kernel_init_vm64_def)
  have d: "drop_bit 26 (0xFC000000 :: int) = 0x3F" by simp
  have 1: "run Numpy2 machine =
     machine\<lparr>memory := Memory_init\<lparr>reads := 4\<rparr>, pc := 4, cycles := 1,
             running := False, shown := [TypeError_not_callable]\<rparr>"
    using run_ends_not_running [where np = Numpy2 and k = machine and e = TypeError_not_callable
        and k' = "machine\<lparr>memory := Memory_init\<lparr>reads := 4\<rparr>, pc := 4, cycles := 1\<rparr>"]
      m cycle_machine [of Numpy2] by (simp add: machine_def Kernel_init_def)
  have 2: "run Numpy2 (machine\<lparr>running := False\<rparr>) = machine\<lparr>running := False\<rparr>"
    using run_ends_not_running [where np = Numpy2 and k = "machine\<lparr>running := False\<rparr>"] by simp
  have "run Numpy1 ?h = run Numpy1 ?h'"
    using run_ends_not_running [where np = Numpy1 and k = ?h and u = "()" and k' = ?h'] h
      cycle_halt [of Numpy1] by blast
  also have "\<dots> = ?h'"
    using run_ends_not_running [where np = Numpy1 and k = ?h'] h' by blast
  finally have 3: "run Numpy1 ?h = ?h'" .
  have 4: "decode_instruction 0xFC000000 = Some HALT"
    using run_ends_not_running [where w = "0xFC000000"] d by blast
  have 5: "run_vm64 3 ((machine_vm64 [])\<lparr>running_vm64 := False\<rparr>) =
       Some (Inr (), (machine_vm64 [])\<lparr>running_vm64 := False\<rparr>)"
    using run_ends_not_running [where v = "(machine_vm64 [])\<lparr>running_vm64 := False\<rparr>" and fuel = 3]
    by simp
  have 6: "execute_instruction_vm64 (machine_vm64 []) 0xFC000000 =
       (Inr (), (machine_vm64 [])\<lparr>running_vm64 := False\<rparr>)"
    using run_ends_not_running [where w = "0xFC000000" and v = "machine_vm64 []"] d by blast
  have "run_vm64 (Suc (Suc 0)) ?g = run_vm64 (Suc 0) ?g'"
    using run_ends_not_running [where v = ?g and fuel = "Suc 0" and u = "()" and v' = ?g'] rg
      cycle_halt_vm64 by blast
  also have "\<dots> = Some (Inr (), ?g')"
    using run_ends_not_running [where v = ?g' and fuel = "Suc 0"] rg' by blast
  finally have 7: "run_vm64 (Suc (Suc 0)) ?g = Some (Inr (), ?g')" .
  have 8: "\<not> running_vm64 ?g'"
    using run_ends_not_running [where v = ?g and fuel = "Suc (Suc 0)" and u = "()" and v' = ?g'] 7
    by blast
  have 9: "run_vm64 (Suc 0) ?v = Some (Inl (ValueError_unknown_opcode 5), ?v\<lparr>pc_vm64 := 4\<rparr>)"
    using run_ends_not_running [where v = ?v and fuel = 0 and e = "ValueError_unknown_opcode 5"
        and v' = "?v\<lparr>pc_vm64 := 4\<rparr>"] rv cycle_unknown_vm64 by blast
  have 10: "running_vm64 (?v\<lparr>pc_vm64 := 4\<rparr>)"
    using run_ends_not_running [where v = ?v and fuel = "Suc 0"
        and e = "ValueError_unknown_opcode 5" and v' = "?v\<lparr>pc_vm64 := 4\<rparr>"] 9 by blast
  from 1 2 3 4 5 6 7 8 9 10 d show ?thesis by blast
qed

section \<open>Word access\<close>

lemma read_word_rdram_tail:
  assumes "RDRAM_END - 2 \<le> a" and "a \<le> RDRAM_END"
  shows "read_word m a = (Inl struct_error, m\<lparr>reads := reads m + 4\<rparr>)"
proof -
  have ma: "map_address a = Inr (RDRAM, nat a)"
    using assms by (simp add: map_address_def region_defs)
  have "length (numpy_slice RDRAM_SIZE (rdram m) (nat a) (nat a + 4)) < 4"
    using assms by (intro numpy_slice_short) (simp add: region_defs)
  then have "unpack_I (numpy_slice RDRAM_SIZE (rdram m) (nat a) (nat a + 4)) = Inl struct_error"
    by (rule unpack_I_short)
  with ma show ?thesis by (simp add: read_word_def)
qed

lemma read_word_pif_tail:
  assumes "PIF_ROM_END - 2 \<le> a" and "a \<le> PIF_ROM_END"
  shows "read_word m a = (Inl struct_error, m\<lparr>reads := reads m + 4\<rparr>)"
proof -
  have ma: "map_address a = Inr (PIF_ROM, nat (a - PIF_ROM_START))"
    using assms by (simp add: map_address_def region_defs)
  have "length (numpy_slice PIF_ROM_SIZE (pif_rom m) (nat (a - PIF_ROM_START))
                  (nat (a - PIF_ROM_START) + 4)) < 4"
    using assms by (intro numpy_slice_short) (simp add: region_defs)
  then have "unpack_I (numpy_slice PIF_ROM_SIZE (pif_rom m) (nat (a - PIF_ROM_START))
                  (nat (a - PIF_ROM_START) + 4)) = Inl struct_error"
    by (rule unpack_I_short)
  with ma show ?thesis by (simp add: read_word_def)
qed

lemma write_word_pif:
  assumes "PIF_ROM_START \<le> a" and "a \<le> PIF_ROM_END"
  shows "write_word np m a v = (Inl MemoryError_pif_rom, m\<lparr>writes := writes m + 4\<rparr>)"
  using assms by (simp add: write_word_def map_address_pif)

lemma word_vm64_tail:
  assumes "size_vm64 m - 3 \<le> a"
  shows "read_word_vm64 m a = Inl (MemoryError_invalid_read a)"
    and "write_word_vm64 m a v = Inl (MemoryError_invalid_write a)"
  using assms by (simp_all add: read_word_vm64_def write_word_vm64_def)

text \<open>
  C2. For every address \<open>a\<close> that resolves to a region while \<open>a + 3\<close> lies outside it,
  \<open>read_word\<close> and \<open>write_word\<close> fail rather than read or write a truncated span.
  FlamesVM64 checks \<open>address + 3\<close> against the size (\<open>word_vm64_tail\<close>), and in EMAUI0.2 the
  read fails in \<^verbatim>\<open>struct.unpack\<close> (\<open>read_word_rdram_tail\<close>, \<open>read_word_pif_tail\<close>). The
  \<open>write_word\<close> of EMAUI0.2 has no such check and hands the packed \<^verbatim>\<open>bytes\<close> to numpy,
  which broadcasts one converted byte over whatever is left of the slice: at the third last
  address of RDRAM, \<open>0x7FFFFD\<close>, the value \<open>0x30303031\<close> (the bytes of the literal
  \<^verbatim>\<open>0001\<close>) is accepted, and the three last bytes of RDRAM are set to 1.
\<close>

theorem write_word_truncates_at_rdram_end:
  "map_address 0x7FFFFD = Inr (RDRAM, 0x7FFFFD)
   \<and> map_address (0x7FFFFD + 3) = Inl (MemoryError_invalid_access 0x800000)
   \<and> write_word Numpy1 Memory_init 0x7FFFFD 0x30303031 =
       (Inr (), Memory_init\<lparr>writes := 4,
                  rdram := (\<lambda>i. if 0x7FFFFD \<le> i \<and> i < 0x800000 then 1 else 0)\<rparr>)
   \<and> write_word Numpy2 Memory_init 0x7FFFFD 0x30303031 =
       (Inr (), Memory_init\<lparr>writes := 4,
                  rdram := (\<lambda>i. if 0x7FFFFD \<le> i \<and> i < 0x800000 then 1 else 0)\<rparr>)"
proof -
  have p: "pack_I 0x30303031 = Inr [0x30, 0x30, 0x30, 0x31]"
    by (simp add: pack_I_def)
  have c: "numpy_uint8_of_bytes np [0x30, 0x30, 0x30, 0x31] = Inr 1" for np
    by (cases np)
      (simp_all add: numpy_uint8_of_bytes_def py_int_of_bytes_def py_unsigned_def py_isspace_def
        py_isdigit_def)
  have f: "numpy_fill RDRAM_SIZE (\<lambda>_. 0 :: u8) 0x7FFFFD (0x7FFFFD + 4) 1 =
             (\<lambda>i. if 0x7FFFFD \<le> i \<and> i < 0x800000 then 1 else 0)"
    by (auto simp: numpy_fill_def RDRAM_SIZE_def fun_eq_iff)
  have m: "map_address 0x7FFFFD = Inr (RDRAM, 0x7FFFFD)"
    by (simp add: map_address_def region_defs)
  have n: "map_address (0x7FFFFD + 3) = Inl (MemoryError_invalid_access 0x800000)"
    by (simp add: map_address_def region_defs)
  have w: "write_word np Memory_init 0x7FFFFD 0x30303031 =
       (Inr (), Memory_init\<lparr>writes := 4,
                  rdram := (\<lambda>i. if 0x7FFFFD \<le> i \<and> i < 0x800000 then 1 else 0)\<rparr>)" for np
    using p c [of np] f by (simp add: write_word_def m Memory_init_def)
  from m n w [of Numpy1] w [of Numpy2] show ?thesis by blast
qed

lemma be_bytes_sum:
  fixes v :: int
  shows "v div 16777216 * 16777216 + v div 65536 mod 256 * 65536 + v div 256 mod 256 * 256
         + v mod 256 = v"
proof -
  have d16: "v div 65536 = v div 256 div 256"
    using zdiv_zmult2_eq [of 256 v 256] by simp
  have d24: "v div 16777216 = v div 65536 div 256"
    using zdiv_zmult2_eq [of 256 v 65536] by simp
  have b: "v div 65536 * 256 + v div 256 mod 256 = v div 256"
    by (simp only: d16 div_mult_mod_eq)
  have c: "v div 16777216 * 256 + v div 65536 mod 256 = v div 65536"
    by (simp only: d24 div_mult_mod_eq)
  have "v div 16777216 * 16777216 + v div 65536 mod 256 * 65536 + v div 256 mod 256 * 256
         + v mod 256
      = ((v div 16777216 * 256 + v div 65536 mod 256) * 256 + v div 256 mod 256) * 256
         + v mod 256"
    by (simp add: algebra_simps)
  also have "\<dots> = v"
    by (simp only: b c div_mult_mod_eq)
  finally show ?thesis .
qed

lemma unpack_pack_I:
  assumes "pack_I v = Inr bs"
  shows "unpack_I bs = Inr v"
proof -
  from assms have v: "0 \<le> v" "v < 2 ^ 32"
    and bs: "bs = [word_of_int (drop_bit 24 v), word_of_int (drop_bit 16 v),
                   word_of_int (drop_bit 8 v), word_of_int v]"
    by (auto simp: pack_I_def split: if_splits)
  have u: "uint (word_of_int x :: u8) = x mod 256" for x
    by (simp add: uint_word_of_int take_bit_eq_mod)
  have "push_bit 24 (uint (word_of_int (drop_bit 24 v) :: u8))
        + push_bit 16 (uint (word_of_int (drop_bit 16 v) :: u8))
        + push_bit 8 (uint (word_of_int (drop_bit 8 v) :: u8))
        + uint (word_of_int v :: u8) = v"
    using v unfolding u push_bit_eq_mult drop_bit_eq_div by (simp add: be_bytes_sum)
  with bs show ?thesis by (simp add: unpack_I_def)
qed

lemma pack_I_length: "pack_I v = Inr bs \<Longrightarrow> length bs = 4"
  by (auto simp: pack_I_def split: if_splits)

lemma py_slice_bounds_inside:
  "0 \<le> a \<Longrightarrow> a + 4 \<le> n \<Longrightarrow> py_slice_bounds n a (a + 4) = (nat a, nat a + 4)"
  by (auto simp: py_slice_bounds_def Let_def)

lemma py_setslice_inside:
  assumes "0 \<le> a" and "a + 4 \<le> int (length xs)"
  shows "py_setslice xs a (a + 4) bs = take (nat a) xs @ bs @ drop (nat a + 4) xs"
  using assms by (simp add: py_setslice_def py_slice_bounds_inside)

lemma py_getslice_setslice:
  assumes "0 \<le> a" and "a + 4 \<le> int (length xs)" and "length bs = 4"
  shows "py_getslice (py_setslice xs a (a + 4) bs) a (a + 4) = bs"
proof -
  have l: "length (take (nat a) xs @ bs @ drop (nat a + 4) xs) = length xs"
    using assms by simp
  have n: "nat a \<le> length xs" using assms by linarith
  show ?thesis
    using assms n
    by (simp add: py_setslice_inside py_getslice_def l py_slice_bounds_inside min_absorb2)
qed

lemma write_read_word_vm64:
  assumes "0 \<le> a" and "a + 3 < size_vm64 m"
    and "int (length (bytearray_vm64 m)) = size_vm64 m"
    and "0 \<le> v" and "v < 2 ^ 32"
  shows "\<exists>m'. write_word_vm64 m a v = Inr m' \<and> read_word_vm64 m' a = Inr v
           \<and> size_vm64 m' = size_vm64 m \<and> length (bytearray_vm64 m') = length (bytearray_vm64 m)
           \<and> bytearray_vm64 m' ! nat a = word_of_int (drop_bit 24 v)
           \<and> bytearray_vm64 m' ! (nat a + 3) = word_of_int v"
proof -
  let ?bs = "[word_of_int (drop_bit 24 v), word_of_int (drop_bit 16 v),
              word_of_int (drop_bit 8 v), word_of_int v] :: u8 list"
  let ?xs = "bytearray_vm64 m"
  let ?m' = "m\<lparr>bytearray_vm64 := py_setslice ?xs a (a + 4) ?bs\<rparr>"
  have p: "pack_I v = Inr ?bs" using assms by (simp add: pack_I_def)
  have le: "a + 4 \<le> int (length ?xs)" using assms by simp
  have w: "write_word_vm64 m a v = Inr ?m'"
    using assms p by (simp add: write_word_vm64_def)
  have g: "py_getslice (py_setslice ?xs a (a + 4) ?bs) a (a + 4) = ?bs"
    using assms(1) le by (rule py_getslice_setslice) simp
  have r: "read_word_vm64 ?m' a = Inr v"
    using assms g unpack_pack_I [OF p] by (simp add: read_word_vm64_def)
  have s: "py_setslice ?xs a (a + 4) ?bs = take (nat a) ?xs @ ?bs @ drop (nat a + 4) ?xs"
    using assms(1) le by (rule py_setslice_inside)
  have n: "nat a \<le> length ?xs" using assms(1) le by linarith
  have l: "length (py_setslice ?xs a (a + 4) ?bs) = length ?xs"
    using assms(1) le unfolding s by simp
  have b0: "py_setslice ?xs a (a + 4) ?bs ! nat a = word_of_int (drop_bit 24 v)"
    unfolding s using n by (simp add: nth_append)
  have b3: "py_setslice ?xs a (a + 4) ?bs ! (nat a + 3) = word_of_int v"
    unfolding s using n by (simp add: nth_append)
  from w r l b0 b3 show ?thesis by auto
qed

lemma write_word_rdram_broadcasts:
  assumes "write_word np m a v = (Inr (), m')" and "RDRAM_START \<le> a" and "a + 3 \<le> RDRAM_END"
  shows "\<exists>c. rdram m' (nat a) = c \<and> rdram m' (nat a + 1) = c \<and> rdram m' (nat a + 2) = c
             \<and> rdram m' (nat a + 3) = c"
proof -
  have ma: "map_address a = Inr (RDRAM, nat a)"
    using assms(2,3) by (simp add: map_address_def region_defs)
  from assms(1) obtain c where
    "m' = m\<lparr>writes := writes m + 4,
            rdram := numpy_fill RDRAM_SIZE (rdram m) (nat a) (nat a + 4) c\<rparr>"
    by (auto simp: write_word_def ma Let_def split: sum.splits)
  then have "rdram m' = numpy_fill RDRAM_SIZE (rdram m) (nat a) (nat a + 4) c" by simp
  with assms(2,3) show ?thesis by (simp add: numpy_fill_def region_defs)
qed

lemma write_word_trailing_zero_bytes:
  "write_word np Memory_init 4 0x31000000 =
     (Inl (ValueError_invalid_literal [0x31, 0, 0, 0]), Memory_init\<lparr>writes := 4\<rparr>)"
proof -
  have p: "pack_I 0x31000000 = Inr [0x31, 0, 0, 0]"
    by (simp add: pack_I_def)
  have c: "numpy_uint8_of_bytes np [0x31, 0, 0, 0] = Inl (ValueError_invalid_literal [0x31, 0, 0, 0])"
    by (simp add: numpy_uint8_of_bytes_def py_int_of_bytes_def py_unsigned_def py_isspace_def
        py_isdigit_def)
  have m: "map_address 4 = Inr (RDRAM, 4)"
    by (simp add: map_address_def region_defs)
  show ?thesis using p c by (simp add: write_word_def m Memory_init_def)
qed

lemma write_word_literal_above_255:
  "fst (write_word Numpy2 Memory_init 0 0x31323334) = Inl OverflowError"
  "write_word Numpy1 Memory_init 0 0x31323334 =
     (Inr (), Memory_init\<lparr>writes := 4, rdram := (\<lambda>i. if i < 4 then 210 else 0)\<rparr>)"
proof -
  have p: "pack_I 0x31323334 = Inr [0x31, 0x32, 0x33, 0x34]"
    by (simp add: pack_I_def)
  have i: "py_int_of_bytes [0x31, 0x32, 0x33, 0x34] = Some 1234"
    by (simp add: py_int_of_bytes_def py_unsigned_def py_isspace_def py_isdigit_def)
  have m: "map_address 0 = Inr (RDRAM, 0)"
    by (simp add: map_address_def region_defs)
  have f: "numpy_fill RDRAM_SIZE (\<lambda>_. 0 :: u8) 0 4 1234 = (\<lambda>i. if i < 4 then 210 else 0)"
    by (auto simp: numpy_fill_def RDRAM_SIZE_def fun_eq_iff)
  show "fst (write_word Numpy2 Memory_init 0 0x31323334) = Inl OverflowError"
    using p i by (simp add: write_word_def m numpy_uint8_of_bytes_def)
  show "write_word Numpy1 Memory_init 0 0x31323334 =
     (Inr (), Memory_init\<lparr>writes := 4, rdram := (\<lambda>i. if i < 4 then 210 else 0)\<rparr>)"
    using p i f by (simp add: write_word_def m numpy_uint8_of_bytes_def Memory_init_def)
qed

text \<open>
  C5. For every address \<open>a\<close> inside a mapped writable region with \<open>a + 3\<close> in the same
  region and every 32-bit value \<open>v\<close>, \<open>write_word\<close> followed by \<open>read_word\<close> returns \<open>v\<close>,
  the bytes laid out big-endian. FlamesVM64 does so (\<open>write_read_word_vm64\<close>). EMAUI0.2
  does not: its \<open>write_word\<close> assigns the packed \<^verbatim>\<open>bytes\<close> object to a slice of a numpy
  array, which numpy reads as one scalar to convert, not as four bytes. For \<open>v = 5\<close> at
  address 0 the bytes \<^verbatim>\<open>00 00 00 05\<close> are no integer literal: the write raises
  \<^verbatim>\<open>ValueError\<close> after counting four writes, RDRAM is unchanged, and the read returns 0.
  When the write is accepted at all, the four bytes it stores are equal
  (\<open>write_word_rdram_broadcasts\<close>).
\<close>

theorem write_word_rdram_raises:
  "write_word Numpy1 Memory_init 0 5 =
     (Inl (ValueError_invalid_literal [0, 0, 0, 5]), Memory_init\<lparr>writes := 4\<rparr>)
   \<and> write_word Numpy2 Memory_init 0 5 =
     (Inl (ValueError_invalid_literal [0, 0, 0, 5]), Memory_init\<lparr>writes := 4\<rparr>)
   \<and> read_word (Memory_init\<lparr>writes := 4\<rparr>) 0 = (Inr 0, Memory_init\<lparr>writes := 4, reads := 4\<rparr>)"
proof -
  have p: "pack_I 5 = Inr [0, 0, 0, 5]"
    by (simp add: pack_I_def)
  have c: "numpy_uint8_of_bytes np [0, 0, 0, 5] = Inl (ValueError_invalid_literal [0, 0, 0, 5])"
    for np
    by (simp add: numpy_uint8_of_bytes_def py_int_of_bytes_def py_unsigned_def py_isspace_def
        py_isdigit_def)
  have m: "map_address 0 = Inr (RDRAM, 0)"
    by (simp add: map_address_def region_defs)
  have s: "numpy_slice RDRAM_SIZE (\<lambda>_. 0 :: u8) 0 (0 + 4) = [0, 0, 0, 0]"
    by (rule numpy_slice_4 [THEN trans]) (simp_all add: RDRAM_SIZE_def)
  have w: "write_word np Memory_init 0 5 =
     (Inl (ValueError_invalid_literal [0, 0, 0, 5]), Memory_init\<lparr>writes := 4\<rparr>)" for np
    using p c [of np] by (simp add: write_word_def m Memory_init_def)
  have r: "read_word (Memory_init\<lparr>writes := 4\<rparr>) 0 =
     (Inr 0, Memory_init\<lparr>writes := 4, reads := 4\<rparr>)"
    using s by (simp add: read_word_def m Memory_init_def unpack_I_def)
  from w [of Numpy1] w [of Numpy2] r show ?thesis by blast
qed

end
